theory Spec2Isabelle
  imports
    Main
    "HOL-Library.AList"
    "HOL-Library.Sublist"
    "HOL-Library.Char_ord"
    "HOL-Library.List_Lexorder"
begin

section \<open>Python values that travel through the client and the export tool\<close>

text \<open>
  Every value the two source files handle comes out of \<^verbatim>\<open>response.json()\<close> or is a
  string: it is a JSON value as Python holds it.

  \<^item> \<open>JInt\<close> is Python's unbounded \<^verbatim>\<open>int\<close>.
  \<^item> \<open>JFloat\<close> is a Python \<^verbatim>\<open>float\<close>. The program never computes with one; it only
    passes it on, tests its truth value and lets \<^verbatim>\<open>json.dumps\<close> write it. A float is
    therefore identified by the text \<^verbatim>\<open>json.dumps\<close> writes for it (\<^verbatim>\<open>0.2\<close>, \<^verbatim>\<open>-0.0\<close>,
    \<^verbatim>\<open>1e+16\<close>, \<^verbatim>\<open>NaN\<close>, \<^verbatim>\<open>Infinity\<close>), which is \<^verbatim>\<open>float.__repr__\<close> on finite floats.
  \<^item> \<open>JStr\<close> is \<^verbatim>\<open>str\<close>, over the code points below 256: a \<open>char\<close> here is one code
    point.
  \<^item> \<open>JDict\<close> is \<^verbatim>\<open>dict\<close> with string keys, as an association list in insertion order.
    A Python dict has each key once: \<open>distinct (map fst kvs)\<close>.
\<close>

datatype json =
    JNull
  | JBool bool
  | JInt int
  | JFloat string
  | JStr string
  | JList "json list"
  | JDict "(string \<times> json) list"

type_synonym dict = "(string \<times> json) list"

text \<open>\<^verbatim>\<open>isinstance(value, (dict, list))\<close>\<close>

fun is_container :: "json \<Rightarrow> bool" where
  "is_container (JList _) = True"
| "is_container (JDict _) = True"
| "is_container _ = False"

text \<open>Truth value of a Python object, as \<^verbatim>\<open>not x\<close>, \<^verbatim>\<open>if x\<close> and \<^verbatim>\<open>x or y\<close> test it.\<close>

fun py_truthy :: "json \<Rightarrow> bool" where
  "py_truthy JNull = False"
| "py_truthy (JBool b) = b"
| "py_truthy (JInt i) = (i \<noteq> 0)"
| "py_truthy (JFloat r) = (r \<noteq> ''0.0'' \<and> r \<noteq> ''-0.0'')"
| "py_truthy (JStr s) = (s \<noteq> [])"
| "py_truthy (JList xs) = (xs \<noteq> [])"
| "py_truthy (JDict kvs) = (kvs \<noteq> [])"

subsection \<open>\<^verbatim>\<open>json.dumps\<close> with its default arguments\<close>

text \<open>
  \<^verbatim>\<open>json.dumps(value)\<close>: separators \<^verbatim>\<open>', '\<close> and \<^verbatim>\<open>': '\<close>, no indentation, keys in
  insertion order, \<^verbatim>\<open>ensure_ascii=True\<close>. In a string, the backslash and the double quote
  are escaped with a backslash, backspace, form feed, newline, carriage return and tab
  have their short escapes, and every other code point outside \<^verbatim>\<open>' '..'~'\<close> is written
  \<^verbatim>\<open>\u00xx\<close> with lower-case hexadecimal digits.
\<close>

definition digit_char :: "nat \<Rightarrow> char" where
  "digit_char d = ''0123456789abcdef'' ! (d mod 16)"

function nat_to_dec :: "nat \<Rightarrow> string" where
  "nat_to_dec n = (if n < 10 then [digit_char n] else nat_to_dec (n div 10) @ [digit_char (n mod 10)])"
  by pat_completeness auto
termination
  by (relation "measure id") auto

declare nat_to_dec.simps [simp del]

definition int_to_dec :: "int \<Rightarrow> string" where
  "int_to_dec i = (if i < 0 then CHR ''-'' # nat_to_dec (nat (- i)) else nat_to_dec (nat i))"

definition escape_char :: "char \<Rightarrow> string" where
  "escape_char c =
     (let n = (of_char c :: nat) in
      if n = 0x5C then [CHR 0x5C, CHR 0x5C]
      else if n = 0x22 then [CHR 0x5C, CHR 0x22]
      else if n = 0x08 then [CHR 0x5C, CHR ''b'']
      else if n = 0x0C then [CHR 0x5C, CHR ''f'']
      else if n = 0x0A then [CHR 0x5C, CHR ''n'']
      else if n = 0x0D then [CHR 0x5C, CHR ''r'']
      else if n = 0x09 then [CHR 0x5C, CHR ''t'']
      else if n < 0x20 \<or> 0x7E < n then
        [CHR 0x5C, CHR ''u'', CHR ''0'', CHR ''0'', digit_char (n div 16), digit_char (n mod 16)]
      else [c])"

definition dumps_str :: "string \<Rightarrow> string" where
  "dumps_str s = [CHR 0x22] @ concat (map escape_char s) @ [CHR 0x22]"

text \<open>\<^verbatim>\<open>sep.join(parts)\<close>\<close>

fun py_join :: "string \<Rightarrow> string list \<Rightarrow> string" where
  "py_join sep [] = []"
| "py_join sep [p] = p"
| "py_join sep (p # q # ps) = p @ sep @ py_join sep (q # ps)"

fun json_dumps :: "json \<Rightarrow> string"
  and dumps_items :: "json list \<Rightarrow> string list"
  and dumps_pairs :: "(string \<times> json) list \<Rightarrow> string list"
where
  "json_dumps JNull = ''null''"
| "json_dumps (JBool b) = (if b then ''true'' else ''false'')"
| "json_dumps (JInt i) = int_to_dec i"
| "json_dumps (JFloat r) = r"
| "json_dumps (JStr s) = dumps_str s"
| "json_dumps (JList xs) = ''['' @ py_join '', '' (dumps_items xs) @ '']''"
| "json_dumps (JDict kvs) = ''{'' @ py_join '', '' (dumps_pairs kvs) @ ''}''"
| "dumps_items [] = []"
| "dumps_items (x # xs) = json_dumps x # dumps_items xs"
| "dumps_pairs [] = []"
| "dumps_pairs ((k, v) # kvs) = (dumps_str k @ '': '' @ json_dumps v) # dumps_pairs kvs"

subsection \<open>Exceptions, and the operations on objects that can raise them\<close>

text \<open>
  What \<^verbatim>\<open>requests\<close> hands back for one request: the status code, the body as received
  (\<^verbatim>\<open>response.content\<close>), and what \<^verbatim>\<open>response.json()\<close> makes of that body: the decoded
  value, or \<open>None\<close> when the decoder raises.
\<close>

record response =
  status_code :: int
  content :: string
  json_body :: "json option"

datatype error =
    HTTPError response
  | RequestException string
  | JSONDecodeError
  | AttributeError
  | KeyError string
  | TypeError
  | IndexError
  | ValueError
  | EOFError
  | OSError

text \<open>\<^verbatim>\<open>obj.get(key, default)\<close>: only a dict has the method.\<close>

fun py_get :: "json \<Rightarrow> string \<Rightarrow> json \<Rightarrow> error + json" where
  "py_get (JDict kvs) key dflt = Inr (case map_of kvs key of None \<Rightarrow> dflt | Some v \<Rightarrow> v)"
| "py_get _ key dflt = Inl AttributeError"

text \<open>\<^verbatim>\<open>obj[key]\<close> with a string key.\<close>

fun py_getitem :: "json \<Rightarrow> string \<Rightarrow> error + json" where
  "py_getitem (JDict kvs) key = (case map_of kvs key of None \<Rightarrow> Inl (KeyError key) | Some v \<Rightarrow> Inr v)"
| "py_getitem _ key = Inl TypeError"

text \<open>\<^verbatim>\<open>obj.items()\<close>\<close>

fun py_items :: "json \<Rightarrow> error + dict" where
  "py_items (JDict kvs) = Inr kvs"
| "py_items _ = Inl AttributeError"

text \<open>
  The elements \<^verbatim>\<open>for x in obj\<close> runs over: those of a list, the keys of a dict, the
  characters of a string; anything else is not iterable.
\<close>

fun py_iter :: "json \<Rightarrow> error + json list" where
  "py_iter (JList xs) = Inr xs"
| "py_iter (JDict kvs) = Inr (map (\<lambda>kv. JStr (fst kv)) kvs)"
| "py_iter (JStr s) = Inr (map (\<lambda>c. JStr [c]) s)"
| "py_iter _ = Inl TypeError"

text \<open>\<^verbatim>\<open>a or b\<close>, both already evaluated.\<close>

definition py_or :: "json \<Rightarrow> json \<Rightarrow> json" where
  "py_or a b = (if py_truthy a then a else b)"

text \<open>
  \<^verbatim>\<open>str.strip()\<close> and \<^verbatim>\<open>str.rstrip(chars)\<close>. The white space of \<^verbatim>\<open>str.isspace\<close> below
  code point 256 is 9 to 13, 28 to 32, 133 and 160.
\<close>

definition is_space :: "char \<Rightarrow> bool" where
  "is_space c =
     (let n = (of_char c :: nat) in (9 \<le> n \<and> n \<le> 13) \<or> (28 \<le> n \<and> n \<le> 32) \<or> n = 133 \<or> n = 160)"

definition py_strip :: "string \<Rightarrow> string" where
  "py_strip s = rev (dropWhile is_space (rev (dropWhile is_space s)))"

definition py_rstrip :: "char \<Rightarrow> string \<Rightarrow> string" where
  "py_rstrip ch s = rev (dropWhile (\<lambda>c. c = ch) (rev s))"

text \<open>
  An f-string is kept as its pieces: the literal text and \<^verbatim>\<open>str.format\<close>'s rendering of
  each value that is not known to be a string, left unrendered (\<open>Fmt v\<close>).
\<close>

datatype piece = Lit string | Fmt json

type_synonym fstring = "piece list"

section \<open>\<^verbatim>\<open>api-calls.py\<close>: \<^verbatim>\<open>CodilityAPIClient\<close>\<close>

datatype http_method = GET | POST | DELETE

record request =
  req_method :: http_method
  req_url :: fstring
  req_headers :: "(string \<times> string) list"
  req_json :: "json option"

text \<open>
  The remote side. \<^verbatim>\<open>self.session.get(url)\<close>, \<^verbatim>\<open>.post(url, json=payload)\<close> and
  \<^verbatim>\<open>.delete(url)\<close> send one request and block until they return a response or raise
  (connection refused, time-out, ...). The world \<open>'w\<close> is everything outside the process
  that a request can change and a response can depend on.
\<close>

type_synonym 'w transport = "request \<Rightarrow> 'w \<Rightarrow> (error + response) \<times> 'w"

text \<open>
  The client object: \<^verbatim>\<open>self.base_url\<close> and the entries \<^verbatim>\<open>__init__\<close> adds to the
  headers of \<^verbatim>\<open>self.session\<close>.
\<close>

record client =
  base_url :: string
  headers :: "(string \<times> string) list"

definition default_base_url :: string where
  "default_base_url = ''https://codility.com/api''"

definition init :: "string \<Rightarrow> string \<Rightarrow> client" where
  "init api_key url =
     \<lparr> base_url = py_rstrip CHR ''/'' url,
       headers = [(''Authorization'', ''Bearer '' @ api_key),
                  (''Content-Type'', ''application/json'')] \<rparr>"

text \<open>
  \<^verbatim>\<open>response.raise_for_status()\<close> of \<^verbatim>\<open>requests\<close>: it raises \<^verbatim>\<open>HTTPError\<close>, holding
  the response, for a status code from 400 to 599, and returns otherwise.
\<close>

definition raise_for_status :: "response \<Rightarrow> error + unit" where
  "raise_for_status r =
     (if 400 \<le> status_code r \<and> status_code r < 600 then Inl (HTTPError r) else Inr ())"

definition response_json :: "response \<Rightarrow> error + json" where
  "response_json r = (case json_body r of None \<Rightarrow> Inl JSONDecodeError | Some v \<Rightarrow> Inr v)"

text \<open>The request a method sends on \<^verbatim>\<open>self.session\<close>.\<close>

definition send :: "'w transport \<Rightarrow> client \<Rightarrow> http_method \<Rightarrow> fstring \<Rightarrow> json option \<Rightarrow> 'w
    \<Rightarrow> (error + response) \<times> 'w" where
  "send http c m url payload w =
     http \<lparr> req_method = m, req_url = url, req_headers = headers c, req_json = payload \<rparr> w"

text \<open>
  The three lines that end all but two methods:
  \<^verbatim>\<open>response = self.session.<method>(url ...); response.raise_for_status(); return response.json()\<close>
\<close>

definition call_json :: "'w transport \<Rightarrow> client \<Rightarrow> http_method \<Rightarrow> fstring \<Rightarrow> json option \<Rightarrow> 'w
    \<Rightarrow> (error + json) \<times> 'w" where
  "call_json http c m url payload w =
     (case send http c m url payload w of
        (Inl e, w') \<Rightarrow> (Inl e, w')
      | (Inr r, w') \<Rightarrow>
          (case raise_for_status r of
             Inl e \<Rightarrow> (Inl e, w')
           | Inr _ \<Rightarrow> (response_json r, w')))"

definition get_user_details :: "'w transport \<Rightarrow> client \<Rightarrow> 'w \<Rightarrow> (error + json) \<times> 'w" where
  "get_user_details http c =
     call_json http c GET [Lit (base_url c), Lit ''/account/user''] None"

definition get_available_credits :: "'w transport \<Rightarrow> client \<Rightarrow> 'w \<Rightarrow> (error + json) \<times> 'w" where
  "get_available_credits http c =
     call_json http c GET [Lit (base_url c), Lit ''/account/credits''] None"

definition list_user_logins :: "'w transport \<Rightarrow> client \<Rightarrow> 'w \<Rightarrow> (error + json) \<times> 'w" where
  "list_user_logins http c =
     call_json http c GET [Lit (base_url c), Lit ''/account/logins''] None"

definition list_codelive_templates :: "'w transport \<Rightarrow> client \<Rightarrow> 'w \<Rightarrow> (error + json) \<times> 'w" where
  "list_codelive_templates http c =
     call_json http c GET [Lit (base_url c), Lit ''/codelive/templates''] None"

text \<open>\<^verbatim>\<open>{'template_id': template_id, **candidate_info}\<close>\<close>

definition create_codelive_session :: "'w transport \<Rightarrow> client \<Rightarrow> json \<Rightarrow> dict \<Rightarrow> 'w
    \<Rightarrow> (error + json) \<times> 'w" where
  "create_codelive_session http c template_id candidate_info =
     call_json http c POST [Lit (base_url c), Lit ''/codelive/sessions'']
       (Some (JDict (fold (\<lambda>kv. AList.update (fst kv) (snd kv)) candidate_info
                       [(''template_id'', template_id)])))"

definition create_whiteboard :: "'w transport \<Rightarrow> client \<Rightarrow> json \<Rightarrow> 'w \<Rightarrow> (error + json) \<times> 'w" where
  "create_whiteboard http c session_id =
     call_json http c POST [Lit (base_url c), Lit ''/codelive/whiteboards'']
       (Some (JDict [(''session_id'', session_id)]))"

definition list_email_templates :: "'w transport \<Rightarrow> client \<Rightarrow> 'w \<Rightarrow> (error + json) \<times> 'w" where
  "list_email_templates http c =
     call_json http c GET [Lit (base_url c), Lit ''/email/templates''] None"

definition get_default_email_template :: "'w transport \<Rightarrow> client \<Rightarrow> 'w \<Rightarrow> (error + json) \<times> 'w" where
  "get_default_email_template http c =
     call_json http c GET [Lit (base_url c), Lit ''/email/templates/default''] None"

definition create_email_template :: "'w transport \<Rightarrow> client \<Rightarrow> json \<Rightarrow> json \<Rightarrow> json \<Rightarrow> 'w
    \<Rightarrow> (error + json) \<times> 'w" where
  "create_email_template http c name subject body =
     call_json http c POST [Lit (base_url c), Lit ''/email/templates'']
       (Some (JDict [(''name'', name), (''subject'', subject), (''body'', body)]))"

definition list_sessions :: "'w transport \<Rightarrow> client \<Rightarrow> 'w \<Rightarrow> (error + json) \<times> 'w" where
  "list_sessions http c =
     call_json http c GET [Lit (base_url c), Lit ''/sessions''] None"

definition get_session_data :: "'w transport \<Rightarrow> client \<Rightarrow> json \<Rightarrow> 'w \<Rightarrow> (error + json) \<times> 'w" where
  "get_session_data http c session_id =
     call_json http c GET [Lit (base_url c), Lit ''/sessions/'', Fmt session_id] None"

text \<open>\<^verbatim>\<open>return response.content\<close>\<close>

definition get_pdf_report :: "'w transport \<Rightarrow> client \<Rightarrow> json \<Rightarrow> 'w \<Rightarrow> (error + string) \<times> 'w" where
  "get_pdf_report http c session_id w =
     (case send http c GET
             [Lit (base_url c), Lit ''/sessions/'', Fmt session_id, Lit ''/report/pdf''] None w of
        (Inl e, w') \<Rightarrow> (Inl e, w')
      | (Inr r, w') \<Rightarrow>
          (case raise_for_status r of
             Inl e \<Rightarrow> (Inl e, w')
           | Inr _ \<Rightarrow> (Inr (content r), w')))"

definition get_similarity_results :: "'w transport \<Rightarrow> client \<Rightarrow> json \<Rightarrow> 'w \<Rightarrow> (error + json) \<times> 'w" where
  "get_similarity_results http c session_id =
     call_json http c GET
       [Lit (base_url c), Lit ''/sessions/'', Fmt session_id, Lit ''/similarity''] None"

definition email_candidates :: "'w transport \<Rightarrow> client \<Rightarrow> json \<Rightarrow> json \<Rightarrow> 'w
    \<Rightarrow> (error + json) \<times> 'w" where
  "email_candidates http c session_id email_template_id =
     call_json http c POST
       [Lit (base_url c), Lit ''/sessions/'', Fmt session_id, Lit ''/email'']
       (Some (JDict [(''template_id'', email_template_id)]))"

text \<open>No \<^verbatim>\<open>return\<close>: the method gives \<^verbatim>\<open>None\<close>.\<close>

definition cancel_session :: "'w transport \<Rightarrow> client \<Rightarrow> json \<Rightarrow> 'w \<Rightarrow> (error + unit) \<times> 'w" where
  "cancel_session http c session_id w =
     (case send http c DELETE [Lit (base_url c), Lit ''/sessions/'', Fmt session_id] None w of
        (Inl e, w') \<Rightarrow> (Inl e, w')
      | (Inr r, w') \<Rightarrow> (raise_for_status r, w'))"

definition embed_candidate_report :: "'w transport \<Rightarrow> client \<Rightarrow> json \<Rightarrow> 'w \<Rightarrow> (error + json) \<times> 'w" where
  "embed_candidate_report http c session_id =
     call_json http c GET
       [Lit (base_url c), Lit ''/sessions/'', Fmt session_id, Lit ''/embed''] None"

definition list_tests :: "'w transport \<Rightarrow> client \<Rightarrow> 'w \<Rightarrow> (error + json) \<times> 'w" where
  "list_tests http c =
     call_json http c GET [Lit (base_url c), Lit ''/tests''] None"

definition get_test_details :: "'w transport \<Rightarrow> client \<Rightarrow> json \<Rightarrow> 'w \<Rightarrow> (error + json) \<times> 'w" where
  "get_test_details http c test_id =
     call_json http c GET [Lit (base_url c), Lit ''/tests/'', Fmt test_id] None"

definition list_test_sessions :: "'w transport \<Rightarrow> client \<Rightarrow> json \<Rightarrow> 'w \<Rightarrow> (error + json) \<times> 'w" where
  "list_test_sessions http c test_id =
     call_json http c GET [Lit (base_url c), Lit ''/tests/'', Fmt test_id, Lit ''/sessions''] None"

definition add_candidates :: "'w transport \<Rightarrow> client \<Rightarrow> json \<Rightarrow> json \<Rightarrow> 'w \<Rightarrow> (error + json) \<times> 'w" where
  "add_candidates http c test_id candidates =
     call_json http c POST [Lit (base_url c), Lit ''/tests/'', Fmt test_id, Lit ''/candidates'']
       (Some (JDict [(''candidates'', candidates)]))"

subsection \<open>The methods of the client, by name\<close>

text \<open>
  One constructor for each method with its arguments, and what a call gives back: a
  decoded body, the raw bytes of the PDF report, or nothing.
\<close>

datatype operation =
    Get_user_details
  | Get_available_credits
  | List_user_logins
  | List_codelive_templates
  | Create_codelive_session json dict
  | Create_whiteboard json
  | List_email_templates
  | Get_default_email_template
  | Create_email_template json json json
  | List_sessions
  | Get_session_data json
  | Get_pdf_report json
  | Get_similarity_results json
  | Email_candidates json json
  | Cancel_session json
  | Embed_candidate_report json
  | List_tests
  | Get_test_details json
  | List_test_sessions json
  | Add_candidates json json

datatype returned = Parsed json | Raw string | Nothing

definition returning :: "('a \<Rightarrow> returned) \<Rightarrow> (error + 'a) \<times> 'w \<Rightarrow> (error + returned) \<times> 'w" where
  "returning f res = (case res of (Inl e, w') \<Rightarrow> (Inl e, w') | (Inr x, w') \<Rightarrow> (Inr (f x), w'))"

fun perform :: "'w transport \<Rightarrow> client \<Rightarrow> operation \<Rightarrow> 'w \<Rightarrow> (error + returned) \<times> 'w" where
  "perform http c Get_user_details w = returning Parsed (get_user_details http c w)"
| "perform http c Get_available_credits w = returning Parsed (get_available_credits http c w)"
| "perform http c List_user_logins w = returning Parsed (list_user_logins http c w)"
| "perform http c List_codelive_templates w = returning Parsed (list_codelive_templates http c w)"
| "perform http c (Create_codelive_session t ci) w =
     returning Parsed (create_codelive_session http c t ci w)"
| "perform http c (Create_whiteboard s) w = returning Parsed (create_whiteboard http c s w)"
| "perform http c List_email_templates w = returning Parsed (list_email_templates http c w)"
| "perform http c Get_default_email_template w =
     returning Parsed (get_default_email_template http c w)"
| "perform http c (Create_email_template n s b) w =
     returning Parsed (create_email_template http c n s b w)"
| "perform http c List_sessions w = returning Parsed (list_sessions http c w)"
| "perform http c (Get_session_data s) w = returning Parsed (get_session_data http c s w)"
| "perform http c (Get_pdf_report s) w = returning Raw (get_pdf_report http c s w)"
| "perform http c (Get_similarity_results s) w =
     returning Parsed (get_similarity_results http c s w)"
| "perform http c (Email_candidates s t) w = returning Parsed (email_candidates http c s t w)"
| "perform http c (Cancel_session s) w = returning (\<lambda>_. Nothing) (cancel_session http c s w)"
| "perform http c (Embed_candidate_report s) w =
     returning Parsed (embed_candidate_report http c s w)"
| "perform http c List_tests w = returning Parsed (list_tests http c w)"
| "perform http c (Get_test_details t) w = returning Parsed (get_test_details http c t w)"
| "perform http c (List_test_sessions t) w = returning Parsed (list_test_sessions http c t w)"
| "perform http c (Add_candidates t cs) w = returning Parsed (add_candidates http c t cs w)"

text \<open>What a method returns from a response that \<^verbatim>\<open>raise_for_status\<close> lets through.\<close>

fun result_of :: "operation \<Rightarrow> response \<Rightarrow> error + returned" where
  "result_of (Get_pdf_report s) r = Inr (Raw (content r))"
| "result_of (Cancel_session s) r = Inr Nothing"
| "result_of _ r = (case json_body r of None \<Rightarrow> Inl JSONDecodeError | Some v \<Rightarrow> Inr (Parsed v))"

text \<open>
  The request each method builds: the verb, the URL of its f-string, the headers of the
  session, and the \<^verbatim>\<open>json=\<close> payload of the methods that post.
\<close>

fun request_of :: "client \<Rightarrow> operation \<Rightarrow> request" where
  "request_of c Get_user_details =
     \<lparr> req_method = GET, req_url = [Lit (base_url c), Lit ''/account/user''],
       req_headers = headers c, req_json = None \<rparr>"
| "request_of c Get_available_credits =
     \<lparr> req_method = GET, req_url = [Lit (base_url c), Lit ''/account/credits''],
       req_headers = headers c, req_json = None \<rparr>"
| "request_of c List_user_logins =
     \<lparr> req_method = GET, req_url = [Lit (base_url c), Lit ''/account/logins''],
       req_headers = headers c, req_json = None \<rparr>"
| "request_of c List_codelive_templates =
     \<lparr> req_method = GET, req_url = [Lit (base_url c), Lit ''/codelive/templates''],
       req_headers = headers c, req_json = None \<rparr>"
| "request_of c (Create_codelive_session t ci) =
     \<lparr> req_method = POST, req_url = [Lit (base_url c), Lit ''/codelive/sessions''],
       req_headers = headers c,
       req_json = Some (JDict (fold (\<lambda>kv. AList.update (fst kv) (snd kv)) ci
                                [(''template_id'', t)])) \<rparr>"
| "request_of c (Create_whiteboard s) =
     \<lparr> req_method = POST, req_url = [Lit (base_url c), Lit ''/codelive/whiteboards''],
       req_headers = headers c, req_json = Some (JDict [(''session_id'', s)]) \<rparr>"
| "request_of c List_email_templates =
     \<lparr> req_method = GET, req_url = [Lit (base_url c), Lit ''/email/templates''],
       req_headers = headers c, req_json = None \<rparr>"
| "request_of c Get_default_email_template =
     \<lparr> req_method = GET, req_url = [Lit (base_url c), Lit ''/email/templates/default''],
       req_headers = headers c, req_json = None \<rparr>"
| "request_of c (Create_email_template n s b) =
     \<lparr> req_method = POST, req_url = [Lit (base_url c), Lit ''/email/templates''],
       req_headers = headers c,
       req_json = Some (JDict [(''name'', n), (''subject'', s), (''body'', b)]) \<rparr>"
| "request_of c List_sessions =
     \<lparr> req_method = GET, req_url = [Lit (base_url c), Lit ''/sessions''],
       req_headers = headers c, req_json = None \<rparr>"
| "request_of c (Get_session_data s) =
     \<lparr> req_method = GET, req_url = [Lit (base_url c), Lit ''/sessions/'', Fmt s],
       req_headers = headers c, req_json = None \<rparr>"
| "request_of c (Get_pdf_report s) =
     \<lparr> req_method = GET,
       req_url = [Lit (base_url c), Lit ''/sessions/'', Fmt s, Lit ''/report/pdf''],
       req_headers = headers c, req_json = None \<rparr>"
| "request_of c (Get_similarity_results s) =
     \<lparr> req_method = GET,
       req_url = [Lit (base_url c), Lit ''/sessions/'', Fmt s, Lit ''/similarity''],
       req_headers = headers c, req_json = None \<rparr>"
| "request_of c (Email_candidates s t) =
     \<lparr> req_method = POST,
       req_url = [Lit (base_url c), Lit ''/sessions/'', Fmt s, Lit ''/email''],
       req_headers = headers c, req_json = Some (JDict [(''template_id'', t)]) \<rparr>"
| "request_of c (Cancel_session s) =
     \<lparr> req_method = DELETE, req_url = [Lit (base_url c), Lit ''/sessions/'', Fmt s],
       req_headers = headers c, req_json = None \<rparr>"
| "request_of c (Embed_candidate_report s) =
     \<lparr> req_method = GET,
       req_url = [Lit (base_url c), Lit ''/sessions/'', Fmt s, Lit ''/embed''],
       req_headers = headers c, req_json = None \<rparr>"
| "request_of c List_tests =
     \<lparr> req_method = GET, req_url = [Lit (base_url c), Lit ''/tests''],
       req_headers = headers c, req_json = None \<rparr>"
| "request_of c (Get_test_details t) =
     \<lparr> req_method = GET, req_url = [Lit (base_url c), Lit ''/tests/'', Fmt t],
       req_headers = headers c, req_json = None \<rparr>"
| "request_of c (List_test_sessions t) =
     \<lparr> req_method = GET, req_url = [Lit (base_url c), Lit ''/tests/'', Fmt t, Lit ''/sessions''],
       req_headers = headers c, req_json = None \<rparr>"
| "request_of c (Add_candidates t cs) =
     \<lparr> req_method = POST,
       req_url = [Lit (base_url c), Lit ''/tests/'', Fmt t, Lit ''/candidates''],
       req_headers = headers c, req_json = Some (JDict [(''candidates'', cs)]) \<rparr>"

section \<open>\<^verbatim>\<open>export-completed-sessions.py\<close>: \<^verbatim>\<open>flatten_data\<close>\<close>

text \<open>
  The right-hand side of both assignments in the two loops:
  \<^verbatim>\<open>json.dumps(value) if isinstance(value, (dict, list)) else value\<close>.
\<close>

definition encode_value :: "json \<Rightarrow> json" where
  "encode_value v = (if is_container v then JStr (json_dumps v) else v)"

text \<open>
  The first loop. \<^verbatim>\<open>record[k] = v\<close> on a dict is \<open>AList.update\<close>: the value is
  replaced where the key is, a new key is appended.
\<close>

fun flatten_session :: "dict \<Rightarrow> dict \<Rightarrow> dict" where
  "flatten_session [] record = record"
| "flatten_session ((key, v) # items) record =
     (if key = ''candidate'' then flatten_session items record
      else flatten_session items (AList.update (''session_'' @ key) (encode_value v) record))"

text \<open>The second loop.\<close>

fun flatten_similarity :: "dict \<Rightarrow> dict \<Rightarrow> dict" where
  "flatten_similarity [] record = record"
| "flatten_similarity ((key, v) # items) record =
     flatten_similarity items (AList.update (''similarity_'' @ key) (encode_value v) record)"

text \<open>
  \<^verbatim>\<open>flatten_data(session_data, similarity_data)\<close>. The arguments are whatever the caller
  passes; \<^verbatim>\<open>.items()\<close> raises on one that is not a dict, the second after the first loop
  has run.
\<close>

definition flatten_data :: "json \<Rightarrow> json \<Rightarrow> error + dict" where
  "flatten_data session_data similarity_data =
     (case py_items session_data of
        Inl e \<Rightarrow> Inl e
      | Inr session_items \<Rightarrow>
          (case py_items similarity_data of
             Inl e \<Rightarrow> Inl e
           | Inr similarity_items \<Rightarrow>
               Inr (flatten_similarity similarity_items (flatten_session session_items []))))"

section \<open>\<^verbatim>\<open>export-completed-sessions.py\<close>: \<^verbatim>\<open>main\<close>\<close>

text \<open>
  How the process ends: it runs off the end of \<^verbatim>\<open>main\<close>, it calls \<^verbatim>\<open>sys.exit(n)\<close>, or an
  exception nobody catches ends it (exit code 1).
\<close>

datatype ending = Finished | Exit int | Raised error

fun exit_code :: "ending \<Rightarrow> int" where
  "exit_code Finished = 0"
| "exit_code (Exit n) = n"
| "exit_code (Raised e) = 1"

text \<open>
  The CSV file as \<^verbatim>\<open>csv.DictWriter\<close> is asked to write it: the header, then one list of
  cells for each row, in the order of the header.
\<close>

record csv_file =
  file_name :: string
  header :: "string list"
  file_rows :: "json list list"

text \<open>
  All \<^verbatim>\<open>main\<close> leaves behind: the lines printed (the prompt of \<^verbatim>\<open>input\<close> among them), the
  file if one was opened, and how the process ended.
\<close>

record outcome =
  stdout :: "fstring list"
  written :: "csv_file option"
  ending :: ending

definition stop :: "fstring list \<Rightarrow> ending \<Rightarrow> outcome" where
  "stop out e = \<lparr> stdout = out, written = None, ending = e \<rparr>"

text \<open>
  The body of the loop that lists the tests:
  \<^verbatim>\<open>name = t.get('title') or t.get('name') or '<unnamed>'\<close> and the line
  \<^verbatim>\<open>f"  {t['id']}: {name}"\<close>.
\<close>

definition test_line :: "json \<Rightarrow> error + fstring" where
  "test_line t =
     (case py_get t ''title'' JNull of
        Inl e \<Rightarrow> Inl e
      | Inr title \<Rightarrow>
          (case py_get t ''name'' JNull of
             Inl e \<Rightarrow> Inl e
           | Inr nm \<Rightarrow>
               (let name = py_or title (py_or nm (JStr ''<unnamed>'')) in
                case py_getitem t ''id'' of
                  Inl e \<Rightarrow> Inl e
                | Inr i \<Rightarrow> Inr [Lit ''  '', Fmt i, Lit '': '', Fmt name])))"

text \<open>The loop: the lines printed before it ends, and the exception that ended it, if any.\<close>

fun print_tests :: "json list \<Rightarrow> fstring list \<times> error option" where
  "print_tests [] = ([], None)"
| "print_tests (t # ts) =
     (case test_line t of
        Inl e \<Rightarrow> ([], Some e)
      | Inr l \<Rightarrow> (case print_tests ts of (ls, r) \<Rightarrow> (l # ls, r)))"

text \<open>\<^verbatim>\<open>(t.get('title') == test_name) or (t.get('name') == test_name)\<close>\<close>

definition name_matches :: "json \<Rightarrow> string \<Rightarrow> error + bool" where
  "name_matches t test_name =
     (case py_get t ''title'' JNull of
        Inl e \<Rightarrow> Inl e
      | Inr title \<Rightarrow>
          (case py_get t ''name'' JNull of
             Inl e \<Rightarrow> Inl e
           | Inr nm \<Rightarrow> Inr (title = JStr test_name \<or> nm = JStr test_name)))"

text \<open>\<^verbatim>\<open>matches = [t for t in tests if ...]\<close>\<close>

fun find_matches :: "json list \<Rightarrow> string \<Rightarrow> error + json list" where
  "find_matches [] test_name = Inr []"
| "find_matches (t # ts) test_name =
     (case name_matches t test_name of
        Inl e \<Rightarrow> Inl e
      | Inr b \<Rightarrow>
          (case find_matches ts test_name of
             Inl e \<Rightarrow> Inl e
           | Inr ms \<Rightarrow> Inr (if b then t # ms else ms)))"

text \<open>
  The body of the loop over the sessions: \<open>Inr None\<close> is \<^verbatim>\<open>continue\<close>, \<open>Inr (Some record)\<close>
  is the record handed to \<^verbatim>\<open>completed_records.append\<close>.
\<close>

definition process_session :: "'w transport \<Rightarrow> client \<Rightarrow> json \<Rightarrow> 'w \<Rightarrow> (error + dict option) \<times> 'w" where
  "process_session http c sess w =
     (case py_get sess ''id'' JNull of
        Inl e \<Rightarrow> (Inl e, w)
      | Inr session_id \<Rightarrow>
     (case get_session_data http c session_id w of
        (Inl e, w1) \<Rightarrow> (Inl e, w1)
      | (Inr data, w1) \<Rightarrow>
     (case py_get data ''end_time'' JNull of
        Inl e \<Rightarrow> (Inl e, w1)
      | Inr end_time \<Rightarrow>
     if \<not> py_truthy end_time then (Inr None, w1)
     else
     (case get_similarity_results http c session_id w1 of
        (Inl e, w2) \<Rightarrow> (Inl e, w2)
      | (Inr similarity, w2) \<Rightarrow>
     (case py_get data ''candidate'' (JDict []) of
        Inl e \<Rightarrow> (Inl e, w2)
      | Inr candidate \<Rightarrow>
     (case flatten_data data similarity of
        Inl e \<Rightarrow> (Inl e, w2)
      | Inr record0 \<Rightarrow>
     (case py_get candidate ''firstName'' (JStr []) of
        Inl e \<Rightarrow> (Inl e, w2)
      | Inr first_name \<Rightarrow>
     (case py_get candidate ''lastName'' (JStr []) of
        Inl e \<Rightarrow> (Inl e, w2)
      | Inr last_name \<Rightarrow>
     (case py_get candidate ''email'' (JStr []) of
        Inl e \<Rightarrow> (Inl e, w2)
      | Inr email \<Rightarrow>
          (Inr (Some (AList.update ''email'' email
                       (AList.update ''last_name'' last_name
                         (AList.update ''first_name'' first_name record0)))), w2))))))))))"

text \<open>The loop over the sessions, \<^verbatim>\<open>completed_records\<close> being the accumulator.\<close>

fun collect :: "'w transport \<Rightarrow> client \<Rightarrow> json list \<Rightarrow> dict list \<Rightarrow> 'w \<Rightarrow> (error + dict list) \<times> 'w" where
  "collect http c [] completed_records w = (Inr completed_records, w)"
| "collect http c (sess # rest) completed_records w =
     (case process_session http c sess w of
        (Inl e, w') \<Rightarrow> (Inl e, w')
      | (Inr None, w') \<Rightarrow> collect http c rest completed_records w'
      | (Inr (Some r), w') \<Rightarrow> collect http c rest (completed_records @ [r]) w')"

text \<open>
  \<^verbatim>\<open>csv.DictWriter(csvfile, fieldnames=fieldnames)\<close> with its defaults
  \<^verbatim>\<open>restval=''\<close> and \<^verbatim>\<open>extrasaction='raise'\<close>: a row with a key that is no field name
  raises \<^verbatim>\<open>ValueError\<close>, a field name the row lacks gives an empty cell.
\<close>

definition dict_to_list :: "string list \<Rightarrow> dict \<Rightarrow> error + json list" where
  "dict_to_list fieldnames rowdict =
     (if \<exists>k \<in> set (map fst rowdict). k \<notin> set fieldnames then Inl ValueError
      else Inr (map (\<lambda>k. case map_of rowdict k of None \<Rightarrow> JStr [] | Some v \<Rightarrow> v) fieldnames))"

text \<open>\<^verbatim>\<open>writer.writerows(rows)\<close>: the rows written, and the exception that stopped it, if any.\<close>

fun writerows :: "string list \<Rightarrow> dict list \<Rightarrow> json list list \<times> error option" where
  "writerows fieldnames [] = ([], None)"
| "writerows fieldnames (r # rs) =
     (case dict_to_list fieldnames r of
        Inl e \<Rightarrow> ([], Some e)
      | Inr cells \<Rightarrow> (case writerows fieldnames rs of (done, e) \<Rightarrow> (cells # done, e)))"

text \<open>\<^verbatim>\<open>test_name.replace(' ', '_')\<close> and the file name made of it.\<close>

definition safe_name :: "string \<Rightarrow> string" where
  "safe_name test_name = map (\<lambda>c. if c = CHR '' '' then CHR ''_'' else c) test_name"

definition csv_filename :: "string \<Rightarrow> string" where
  "csv_filename test_name = safe_name test_name @ ''_completed_sessions.csv''"

definition prompt :: fstring where
  "prompt = [Lit (CHR 0x0A # ''Enter the exact name of the test to export: '')]"

text \<open>
  The directory the process runs in, as far as \<^verbatim>\<open>main\<close> touches it: what
  \<^verbatim>\<open>open(filename, 'w', ...)\<close> does for each name, \<open>None\<close> when it returns the file (created
  or truncated), or the exception it raises (a name with a directory that does not exist,
  a directory that cannot be written to, ...).
\<close>

type_synonym directory = "string \<Rightarrow> error option"

text \<open>
  Lines 94 to 107: the field names (\<^verbatim>\<open>sorted(completed_records[0].keys())\<close>), the file,
  the last line printed. Python orders strings as lists of code points, which is the order
  of \<open>string\<close> here. When \<^verbatim>\<open>open\<close> raises, nothing is written and the exception goes on.
  When \<^verbatim>\<open>writerows\<close> raises, the \<^verbatim>\<open>with\<close> block closes the file with what was written and
  the exception goes on.
\<close>

definition export_records :: "directory \<Rightarrow> fstring list \<Rightarrow> string \<Rightarrow> dict list \<Rightarrow> outcome" where
  "export_records fs out test_name completed_records =
     (case completed_records of
        [] \<Rightarrow> stop out (Raised IndexError)
      | first # _ \<Rightarrow>
     (let fieldnames = sort (map fst first);
          filename = csv_filename test_name
      in case fs filename of
           Some e \<Rightarrow> stop out (Raised e)
         | None \<Rightarrow>
     (case writerows fieldnames completed_records of
           (done, Some e) \<Rightarrow>
             \<lparr> stdout = out,
               written = Some \<lparr> file_name = filename, header = fieldnames, file_rows = done \<rparr>,
               ending = Raised e \<rparr>
         | (done, None) \<Rightarrow>
             \<lparr> stdout = out @ [[Lit ''Exported '', Fmt (JInt (int (length completed_records))),
                                Lit ('' records to '' @ [CHR 0x27] @ filename @ [CHR 0x27])]],
               written = Some \<lparr> file_name = filename, header = fieldnames, file_rows = done \<rparr>,
               ending = Finished \<rparr>)))"

text \<open>
  \<^verbatim>\<open>main\<close> is cut into its stages. A stage either ends the process (\<open>Inl\<close>, with all the
  process leaves behind) or hands on what the next stage uses.

  Lines 48 to 57: the list of tests is fetched and shown. The stage hands on the tests and
  the lines printed. In the listing loop and in the comprehension of line 60, \<^verbatim>\<open>or\<close> skips
  \<^verbatim>\<open>t.get('name')\<close> when the title decides; the call has no effect and raises only where
  \<^verbatim>\<open>t.get('title')\<close> has raised before it.
\<close>

definition fetch_tests :: "'w transport \<Rightarrow> client \<Rightarrow> 'w
    \<Rightarrow> (outcome + json list \<times> fstring list) \<times> 'w" where
  "fetch_tests http c w =
     (case list_tests http c w of
        (Inl e, w1) \<Rightarrow> (Inl (stop [] (Raised e)), w1)
      | (Inr tests_resp, w1) \<Rightarrow>
     (case py_get tests_resp ''tests'' (JList []) of
        Inl e \<Rightarrow> (Inl (stop [] (Raised e)), w1)
      | Inr tests \<Rightarrow>
     if \<not> py_truthy tests
     then (Inl (stop [[Lit ''No tests found in your account.'']] (Exit 0)), w1)
     else
     (case py_iter tests of
        Inl e \<Rightarrow> (Inl (stop [[Lit ''Available tests:'']] (Raised e)), w1)
      | Inr test_list \<Rightarrow>
     (case print_tests test_list of
        (ls, Some e) \<Rightarrow> (Inl (stop ([Lit ''Available tests:''] # ls) (Raised e)), w1)
      | (ls, None) \<Rightarrow> (Inr (test_list, [Lit ''Available tests:''] # ls), w1)))))"

text \<open>
  Lines 59 to 64: the name is read and resolved. \<open>typed\<close> is the line \<^verbatim>\<open>input\<close> reads,
  \<open>None\<close> at the end of the input. The stage hands on the lines printed, \<^verbatim>\<open>test_name\<close> and
  \<^verbatim>\<open>test_id\<close>.
\<close>

definition choose_test :: "json list \<Rightarrow> fstring list \<Rightarrow> string option
    \<Rightarrow> outcome + fstring list \<times> string \<times> json" where
  "choose_test test_list out0 typed =
     (let out = out0 @ [prompt] in
      case typed of
        None \<Rightarrow> Inl (stop out (Raised EOFError))
      | Some raw \<Rightarrow>
     (let test_name = py_strip raw in
      case find_matches test_list test_name of
        Inl e \<Rightarrow> Inl (stop out (Raised e))
      | Inr matches \<Rightarrow>
     (case matches of
        [] \<Rightarrow> Inl (stop (out @ [[Lit (''No test found with name '' @ [CHR 0x27] @ test_name
                                       @ [CHR 0x27])]]) (Exit 1))
      | m # _ \<Rightarrow>
     (case py_getitem m ''id'' of
        Inl e \<Rightarrow> Inl (stop out (Raised e))
      | Inr test_id \<Rightarrow> Inr (out, test_name, test_id)))))"

text \<open>Lines 67, 68 and the head of the loop of line 71: the sessions to go through.\<close>

definition fetch_sessions :: "'w transport \<Rightarrow> client \<Rightarrow> fstring list \<Rightarrow> json \<Rightarrow> 'w
    \<Rightarrow> (outcome + json list) \<times> 'w" where
  "fetch_sessions http c out test_id w =
     (case list_test_sessions http c test_id w of
        (Inl e, w1) \<Rightarrow> (Inl (stop out (Raised e)), w1)
      | (Inr sessions_resp, w1) \<Rightarrow>
     (case py_get sessions_resp ''sessions'' (JList []) of
        Inl e \<Rightarrow> (Inl (stop out (Raised e)), w1)
      | Inr sessions \<Rightarrow>
     (case py_iter sessions of
        Inl e \<Rightarrow> (Inl (stop out (Raised e)), w1)
      | Inr sess_list \<Rightarrow> (Inr sess_list, w1))))"

text \<open>Lines 66 to 107, from the resolved \<^verbatim>\<open>test_id\<close> on.\<close>

definition export_test :: "'w transport \<Rightarrow> directory \<Rightarrow> client \<Rightarrow> fstring list \<Rightarrow> string \<Rightarrow> json \<Rightarrow> 'w
    \<Rightarrow> outcome \<times> 'w" where
  "export_test http fs c out test_name test_id w =
     (case fetch_sessions http c out test_id w of
        (Inl ended, w1) \<Rightarrow> (ended, w1)
      | (Inr sess_list, w1) \<Rightarrow>
     (case collect http c sess_list [] w1 of
        (Inl e, w2) \<Rightarrow> (stop out (Raised e), w2)
      | (Inr completed_records, w2) \<Rightarrow>
          if completed_records = []
          then (stop (out @ [[Lit ''No completed sessions found for this test.'']]) (Exit 0), w2)
          else (export_records fs out test_name completed_records, w2)))"

text \<open>Lines 45 to 107 of \<^verbatim>\<open>main\<close>, from the construction of the client on.\<close>

definition run :: "'w transport \<Rightarrow> directory \<Rightarrow> string \<Rightarrow> string option \<Rightarrow> 'w
    \<Rightarrow> outcome \<times> 'w" where
  "run http fs api_key typed w =
     (let c = init api_key default_base_url in
      case fetch_tests http c w of
        (Inl ended, w1) \<Rightarrow> (ended, w1)
      | (Inr (test_list, out0), w1) \<Rightarrow>
     (case choose_test test_list out0 typed of
        Inl ended \<Rightarrow> (ended, w1)
      | Inr (out, test_name, test_id) \<Rightarrow> export_test http fs c out test_name test_id w1))"

text \<open>
  \<^verbatim>\<open>main()\<close>. \<open>env_key\<close> is \<^verbatim>\<open>os.getenv("CODILITY_API_KEY")\<close>; \<^verbatim>\<open>not api_key\<close> holds of
  \<^verbatim>\<open>None\<close> and of the empty string. \<open>fs\<close> is the current directory.
\<close>

definition main :: "'w transport \<Rightarrow> directory \<Rightarrow> string option \<Rightarrow> string option \<Rightarrow> 'w
    \<Rightarrow> outcome \<times> 'w" where
  "main http fs env_key typed w =
     (case env_key of
        None \<Rightarrow>
          (stop [[Lit ''Error: Please set the CODILITY_API_KEY environment variable.'']] (Exit 1), w)
      | Some api_key \<Rightarrow>
          if api_key = []
          then (stop [[Lit ''Error: Please set the CODILITY_API_KEY environment variable.'']] (Exit 1), w)
          else run http fs api_key typed w)"

section \<open>Remote sides to run the program against\<close>

text \<open>
  A server that answers every request with the same response; its world counts the
  requests it has served.
\<close>

definition fixed_reply :: "response \<Rightarrow> nat transport" where
  "fixed_reply r req n = (Inr r, Suc n)"

text \<open>
  An account with three tests, the first and the last with the same title. Test 7 has the
  sessions A (completed, with a candidate) and B (not completed); test 8 has C (completed,
  no candidate, other fields) and A; test 9 has B only.
\<close>

definition ok :: "json \<Rightarrow> response" where
  "ok v = \<lparr> status_code = 200, content = json_dumps v, json_body = Some v \<rparr>"

definition demo_tests :: "json list" where
  "demo_tests =
     [JDict [(''id'', JInt 7), (''title'', JStr ''Backend Role'')],
      JDict [(''id'', JInt 8), (''name'', JStr ''Frontend Role'')],
      JDict [(''id'', JInt 9), (''title'', JStr ''Backend Role''), (''name'', JStr ''Archive'')]]"

definition sess_A :: json where "sess_A = JDict [(''id'', JStr ''A'')]"
definition sess_B :: json where "sess_B = JDict [(''id'', JStr ''B'')]"
definition sess_C :: json where "sess_C = JDict [(''id'', JStr ''C'')]"

definition cand_A :: dict where
  "cand_A = [(''firstName'', JStr ''Ann''), (''lastName'', JStr ''Lee''), (''email'', JStr ''a@x.com'')]"

definition data_A :: dict where
  "data_A = [(''end_time'', JStr ''2024-02-02''), (''candidate'', JDict cand_A), (''score'', JInt 3)]"

definition data_B :: dict where
  "data_B = [(''end_time'', JNull), (''score'', JInt 0)]"

definition data_C :: dict where
  "data_C = [(''end_time'', JStr ''2024-03-03''), (''notes'', JList [JStr ''late''])]"

definition demo_body :: "fstring \<Rightarrow> json option" where
  "demo_body path =
     (if path = [Lit ''/tests''] then Some (JDict [(''tests'', JList demo_tests)])
      else if path = [Lit ''/tests/'', Fmt (JInt 7), Lit ''/sessions''] then
        Some (JDict [(''sessions'', JList [sess_A, sess_B])])
      else if path = [Lit ''/tests/'', Fmt (JInt 8), Lit ''/sessions''] then
        Some (JDict [(''sessions'', JList [sess_C, sess_A])])
      else if path = [Lit ''/tests/'', Fmt (JInt 9), Lit ''/sessions''] then
        Some (JDict [(''sessions'', JList [sess_B])])
      else if path = [Lit ''/sessions/'', Fmt (JStr ''A'')] then Some (JDict data_A)
      else if path = [Lit ''/sessions/'', Fmt (JStr ''B'')] then Some (JDict data_B)
      else if path = [Lit ''/sessions/'', Fmt (JStr ''C'')] then Some (JDict data_C)
      else if path = [Lit ''/sessions/'', Fmt (JStr ''A''), Lit ''/similarity''] then
        Some (JDict [(''score'', JFloat ''0.2'')])
      else if path = [Lit ''/sessions/'', Fmt (JStr ''C''), Lit ''/similarity''] then
        Some (JDict [])
      else None)"

definition demo_server :: "nat transport" where
  "demo_server req n =
     (case demo_body (tl (req_url req)) of
        Some v \<Rightarrow> (Inr (ok v), Suc n)
      | None \<Rightarrow> (Inr \<lparr> status_code = 404, content = ''not found'', json_body = None \<rparr>, Suc n))"

text \<open>
  Two current directories: one with no subdirectory, where a name with a slash cannot be
  opened and every other name can, and one that cannot be written to.
\<close>

definition flat_directory :: directory where
  "flat_directory name = (if CHR ''/'' \<in> set name then Some OSError else None)"

definition read_only_directory :: directory where
  "read_only_directory name = Some OSError"

text \<open>An account with no test in it.\<close>

definition empty_account :: "nat transport" where
  "empty_account req n = (Inr (ok (JDict [(''tests'', JList [])])), Suc n)"

text \<open>The client \<^verbatim>\<open>main\<close> builds from the key \<^verbatim>\<open>key\<close>, and the records of the sessions A and C.\<close>

definition demo_client :: client where
  "demo_client = init ''key'' default_base_url"

text \<open>The lines \<^verbatim>\<open>main\<close> prints for the demo account before it asks for a name.\<close>

definition demo_listing :: "fstring list" where
  "demo_listing =
     [[Lit ''Available tests:''],
      [Lit ''  '', Fmt (JInt 7), Lit '': '', Fmt (JStr ''Backend Role'')],
      [Lit ''  '', Fmt (JInt 8), Lit '': '', Fmt (JStr ''Frontend Role'')],
      [Lit ''  '', Fmt (JInt 9), Lit '': '', Fmt (JStr ''Backend Role'')]]"

definition row_A :: dict where
  "row_A = [(''session_end_time'', JStr ''2024-02-02''), (''session_score'', JInt 3),
            (''similarity_score'', JFloat ''0.2''), (''first_name'', JStr ''Ann''),
            (''last_name'', JStr ''Lee''), (''email'', JStr ''a@x.com'')]"

definition row_C :: dict where
  "row_C = [(''session_end_time'', JStr ''2024-03-03''),
            (''session_notes'', JStr (''['' @ [CHR 0x22] @ ''late'' @ [CHR 0x22] @ '']'')),
            (''first_name'', JStr []), (''last_name'', JStr []), (''email'', JStr [])]"


section \<open>Flattening\<close>

text \<open>Assigning to a key the dict does not have yet appends the entry.\<close>

lemma update_fresh: "k \<notin> fst ` set al \<Longrightarrow> AList.update k v al = al @ [(k, v)]"
  by (induction al) auto

text \<open>
  On the items of a dict, neither loop of \<^verbatim>\<open>flatten_data\<close> ever assigns to a key twice, so
  each appends its entries in the order of the items.
\<close>

lemma flatten_session_append:
  "distinct (map fst sd) \<Longrightarrow> (\<forall>k \<in> fst ` set sd. ''session_'' @ k \<notin> fst ` set record) \<Longrightarrow>
   flatten_session sd record =
     record @ map (\<lambda>kv. (''session_'' @ fst kv, encode_value (snd kv)))
                (filter (\<lambda>kv. fst kv \<noteq> ''candidate'') sd)"
proof (induction sd arbitrary: "record")
  case Nil
  then show ?case by simp
next
  case (Cons p sd)
  obtain key v where p: "p = (key, v)" by (cases p)
  show ?case
  proof (cases "key = ''candidate''")
    case True
    with Cons p show ?thesis by simp
  next
    case False
    let ?r = "AList.update (''session_'' @ key) (encode_value v) record"
    have fresh: "''session_'' @ key \<notin> fst ` set record" using Cons.prems p by simp
    have r: "?r = record @ [(''session_'' @ key, encode_value v)]"
      by (rule update_fresh [OF fresh])
    have "\<forall>k \<in> fst ` set sd. ''session_'' @ k \<notin> fst ` set ?r"
      using Cons.prems p unfolding r by auto
    moreover have "distinct (map fst sd)" using Cons.prems by simp
    ultimately have "flatten_session sd ?r = ?r @ map (\<lambda>kv. (''session_'' @ fst kv, encode_value (snd kv)))
                (filter (\<lambda>kv. fst kv \<noteq> ''candidate'') sd)"
      by (rule Cons.IH[rotated])
    with False p r show ?thesis by simp
  qed
qed

lemma flatten_similarity_append:
  "distinct (map fst sim) \<Longrightarrow> (\<forall>k \<in> fst ` set sim. ''similarity_'' @ k \<notin> fst ` set record) \<Longrightarrow>
   flatten_similarity sim record =
     record @ map (\<lambda>kv. (''similarity_'' @ fst kv, encode_value (snd kv))) sim"
proof (induction sim arbitrary: "record")
  case Nil
  then show ?case by simp
next
  case (Cons p sim)
  obtain key v where p: "p = (key, v)" by (cases p)
  let ?r = "AList.update (''similarity_'' @ key) (encode_value v) record"
  have fresh: "''similarity_'' @ key \<notin> fst ` set record" using Cons.prems p by simp
  have r: "?r = record @ [(''similarity_'' @ key, encode_value v)]"
    by (rule update_fresh [OF fresh])
  have "\<forall>k \<in> fst ` set sim. ''similarity_'' @ k \<notin> fst ` set ?r"
    using Cons.prems p unfolding r by auto
  moreover have "distinct (map fst sim)" using Cons.prems by simp
  ultimately have "flatten_similarity sim ?r = ?r @ map (\<lambda>kv. (''similarity_'' @ fst kv, encode_value (snd kv))) sim"
    by (rule Cons.IH[rotated])
  with p r show ?case by simp
qed

text \<open>The keys of the record after each loop, for any items.\<close>

lemma keys_flatten_session:
  "fst ` set (flatten_session sd record) =
     fst ` set record \<union> (\<lambda>k. ''session_'' @ k) ` (fst ` set sd - {''candidate''})"
proof (induction sd arbitrary: "record")
  case Nil
  then show ?case by simp
next
  case (Cons p sd)
  obtain key v where p: "p = (key, v)" by (cases p)
  show ?case
  proof (cases "key = ''candidate''")
    case True
    have "flatten_session (p # sd) record = flatten_session sd record"
      using True p by simp
    moreover have "fst ` set (p # sd) - {''candidate''} = fst ` set sd - {''candidate''}"
      using True p by auto
    ultimately show ?thesis using Cons.IH by simp
  next
    case False
    have "flatten_session (p # sd) record =
        flatten_session sd (AList.update (''session_'' @ key) (encode_value v) record)"
      using False p by simp
    moreover have "fst ` set (p # sd) - {''candidate''} = insert key (fst ` set sd - {''candidate''})"
      using False p by auto
    ultimately show ?thesis
      by (simp only: Cons.IH AList.dom_update image_insert) blast
  qed
qed

lemma keys_flatten_similarity:
  "fst ` set (flatten_similarity sim record) =
     fst ` set record \<union> (\<lambda>k. ''similarity_'' @ k) ` (fst ` set sim)"
proof (induction sim arbitrary: "record")
  case Nil
  then show ?case by simp
next
  case (Cons p sim)
  obtain key v where p: "p = (key, v)" by (cases p)
  have "flatten_similarity (p # sim) record =
      flatten_similarity sim (AList.update (''similarity_'' @ key) (encode_value v) record)"
    using p by simp
  moreover have "fst ` set (p # sim) = insert key (fst ` set sim)"
    using p by auto
  ultimately show ?case
    by (simp only: Cons.IH AList.dom_update image_insert) blast
qed

lemma session_not_similarity: "''session_'' @ a \<noteq> ''similarity_'' @ b"
  by simp

lemma flatten_items_append:
  assumes "distinct (map fst sd)" "distinct (map fst sim)"
  shows "flatten_similarity sim (flatten_session sd []) =
     map (\<lambda>kv. (''session_'' @ fst kv, encode_value (snd kv))) (filter (\<lambda>kv. fst kv \<noteq> ''candidate'') sd)
     @ map (\<lambda>kv. (''similarity_'' @ fst kv, encode_value (snd kv))) sim"
proof -
  have s: "flatten_session sd [] = map (\<lambda>kv. (''session_'' @ fst kv, encode_value (snd kv))) (filter (\<lambda>kv. fst kv \<noteq> ''candidate'') sd)"
    using flatten_session_append [OF assms(1), of "[]"] by simp
  have "\<forall>k \<in> fst ` set sim. ''similarity_'' @ k \<notin> fst ` set (flatten_session sd [])"
    unfolding keys_flatten_session using session_not_similarity by fastforce
  from flatten_similarity_append [OF assms(2) this] s show ?thesis
    by simp
qed

text \<open>
  Claim C1. For every session dict and similarity dict, \<^verbatim>\<open>flatten_data\<close> returns a
  single-level dict: one entry \<^verbatim>\<open>session_<key>\<close> for each session field other than
  \<^verbatim>\<open>candidate\<close>, then one entry \<^verbatim>\<open>similarity_<key>\<close> for each similarity field, in the
  order of the fields; a value that is a dict or a list is replaced by its \<^verbatim>\<open>json.dumps\<close>
  text and every other value is passed through unchanged, so no value of the result is a
  dict or a list. In particular the session fields
  \<^verbatim>\<open>{"end_time": "2024-01-01", "nested": {"a": 1}}\<close> with the similarity fields
  \<^verbatim>\<open>{"score": 0.2}\<close> flatten to exactly
  \<^verbatim>\<open>{"session_end_time": "2024-01-01", "session_nested": "{\"a\": 1}", "similarity_score": 0.2}\<close>.
\<close>

theorem flatten_data_namespaces:
  assumes "distinct (map fst session_data)" and "distinct (map fst similarity_data)"
  shows "flatten_data (JDict session_data) (JDict similarity_data) =
           Inr (map (\<lambda>kv. (''session_'' @ fst kv,
                           if is_container (snd kv) then JStr (json_dumps (snd kv)) else snd kv))
                  (filter (\<lambda>kv. fst kv \<noteq> ''candidate'') session_data)
                @ map (\<lambda>kv. (''similarity_'' @ fst kv,
                              if is_container (snd kv) then JStr (json_dumps (snd kv)) else snd kv))
                    similarity_data)
       \<and> (\<forall>row. flatten_data (JDict session_data) (JDict similarity_data) = Inr row
            \<longrightarrow> (\<forall>kv \<in> set row. \<not> is_container (snd kv)))
       \<and> flatten_data
            (JDict [(''end_time'', JStr ''2024-01-01''), (''nested'', JDict [(''a'', JInt 1)])])
            (JDict [(''score'', JFloat ''0.2'')])
          = Inr [(''session_end_time'', JStr ''2024-01-01''),
                 (''session_nested'', JStr [CHR 0x7B, CHR 0x22, CHR ''a'', CHR 0x22, CHR '':'', CHR '' '', CHR ''1'', CHR 0x7D]),
                 (''similarity_score'', JFloat ''0.2'')]"
proof (intro conjI)
  show eq: "flatten_data (JDict session_data) (JDict similarity_data) =
           Inr (map (\<lambda>kv. (''session_'' @ fst kv,
                           if is_container (snd kv) then JStr (json_dumps (snd kv)) else snd kv))
                  (filter (\<lambda>kv. fst kv \<noteq> ''candidate'') session_data)
                @ map (\<lambda>kv. (''similarity_'' @ fst kv,
                              if is_container (snd kv) then JStr (json_dumps (snd kv)) else snd kv))
                    similarity_data)"
    using flatten_items_append [OF assms]
    by (simp add: flatten_data_def encode_value_def)
  show "\<forall>row. flatten_data (JDict session_data) (JDict similarity_data) = Inr row
            \<longrightarrow> (\<forall>kv \<in> set row. \<not> is_container (snd kv))"
    unfolding eq by (auto split: if_splits)
  show "flatten_data
            (JDict [(''end_time'', JStr ''2024-01-01''), (''nested'', JDict [(''a'', JInt 1)])])
            (JDict [(''score'', JFloat ''0.2'')])
          = Inr [(''session_end_time'', JStr ''2024-01-01''),
                 (''session_nested'', JStr [CHR 0x7B, CHR 0x22, CHR ''a'', CHR 0x22, CHR '':'', CHR '' '', CHR ''1'', CHR 0x7D]),
                 (''similarity_score'', JFloat ''0.2'')]"
    by (simp add: flatten_data_def encode_value_def dumps_str_def escape_char_def int_to_dec_def
        nat_to_dec.simps digit_char_def)
qed

theorem flatten_data_namespaces_witness:
  "distinct (map fst [(''end_time'', JStr ''2024-03-01''), (''candidate'', JDict [(''email'', JStr ''a@x.com'')]),
                      (''tags'', JList [JInt 1, JNull])])
   \<and> distinct (map fst [(''score'', JFloat ''0.2''), (''pairs'', JDict [])])
   \<and> flatten_data
        (JDict [(''end_time'', JStr ''2024-03-01''), (''candidate'', JDict [(''email'', JStr ''a@x.com'')]),
                (''tags'', JList [JInt 1, JNull])])
        (JDict [(''score'', JFloat ''0.2''), (''pairs'', JDict [])])
      = Inr [(''session_end_time'', JStr ''2024-03-01''),
             (''session_tags'', JStr ''[1, null]''),
             (''similarity_score'', JFloat ''0.2''),
             (''similarity_pairs'', JStr ''{}'')]"
  using flatten_data_namespaces
    [of "[(''end_time'', JStr ''2024-03-01''), (''candidate'', JDict [(''email'', JStr ''a@x.com'')]),
          (''tags'', JList [JInt 1, JNull])]"
        "[(''score'', JFloat ''0.2''), (''pairs'', JDict [])]"]
  by (simp add: int_to_dec_def nat_to_dec.simps digit_char_def)

section \<open>Calls of the client\<close>

text \<open>
  The three closing lines of a method, spelt out: one request; what the transport raises
  is passed on; a status from 400 to 599 raises \<^verbatim>\<open>HTTPError\<close>; any other status hands the
  body to the decoder.
\<close>

lemma call_json_outcome:
  "call_json http c m url payload w =
     (case http \<lparr> req_method = m, req_url = url, req_headers = headers c, req_json = payload \<rparr> w of
        (Inl e, w') \<Rightarrow> (Inl e, w')
      | (Inr r, w') \<Rightarrow>
          (if 400 \<le> status_code r \<and> status_code r < 600 then Inl (HTTPError r)
           else (case json_body r of None \<Rightarrow> Inl JSONDecodeError | Some v \<Rightarrow> Inr v), w'))"
  by (simp add: call_json_def send_def raise_for_status_def response_json_def
      split: prod.splits sum.splits)

lemma returning_parsed_call_json:
  "returning Parsed (call_json http c m url payload w) =
     (case http \<lparr> req_method = m, req_url = url, req_headers = headers c, req_json = payload \<rparr> w of
        (Inl e, w') \<Rightarrow> (Inl e, w')
      | (Inr r, w') \<Rightarrow>
          (if 400 \<le> status_code r \<and> status_code r < 600 then Inl (HTTPError r)
           else (case json_body r of None \<Rightarrow> Inl JSONDecodeError | Some v \<Rightarrow> Inr (Parsed v)), w'))"
  by (simp add: call_json_outcome returning_def split: prod.splits sum.splits option.splits)

lemma perform_outcome:
  "perform http c op w =
     (case http (request_of c op) w of
        (Inl e, w') \<Rightarrow> (Inl e, w')
      | (Inr r, w') \<Rightarrow>
          (if 400 \<le> status_code r \<and> status_code r < 600 then Inl (HTTPError r)
           else result_of op r, w'))"
proof (cases op)
  case (Get_pdf_report s)
  then show ?thesis
    by (simp add: get_pdf_report_def send_def raise_for_status_def returning_def
        split: prod.splits sum.splits)
next
  case (Cancel_session s)
  then show ?thesis
    by (simp add: cancel_session_def send_def raise_for_status_def returning_def
        split: prod.splits sum.splits)
qed (simp_all add: returning_parsed_call_json get_user_details_def get_available_credits_def
      list_user_logins_def list_codelive_templates_def create_codelive_session_def
      create_whiteboard_def list_email_templates_def get_default_email_template_def
      create_email_template_def list_sessions_def get_session_data_def
      get_similarity_results_def email_candidates_def embed_candidate_report_def
      list_tests_def get_test_details_def list_test_sessions_def add_candidates_def
      split: prod.splits sum.splits)

lemma result_of_not_http: "result_of op r \<noteq> Inl (HTTPError x)"
  by (cases op) (simp_all split: option.splits)

text \<open>
  Claim C3, as the code has it. For every method of the client, every client and every
  remote side: the call sends exactly one request, the one of \<open>request_of\<close> (no retry: the
  world after the call is the world after that one request). If the transport raises, the
  call raises the same exception. If it returns a response, the call raises \<^verbatim>\<open>HTTPError\<close>
  holding that response if and only if the status code is from 400 to 599, and nothing
  catches it. On any other status code the call returns what the response holds:
  the decoded body, unmodified (or the decoder's exception when the body does not
  decode), the raw bytes for the PDF report, nothing for the cancellation.
\<close>

theorem client_call_outcome:
  "perform http c op w =
     (case http (request_of c op) w of
        (Inl e, w') \<Rightarrow> (Inl e, w')
      | (Inr r, w') \<Rightarrow>
          (if 400 \<le> status_code r \<and> status_code r < 600 then Inl (HTTPError r)
           else result_of op r, w'))
   \<and> (\<forall>r w'. http (request_of c op) w = (Inr r, w') \<longrightarrow>
         ((\<exists>x. fst (perform http c op w) = Inl (HTTPError x))
            \<longleftrightarrow> (400 \<le> status_code r \<and> status_code r < 600)))"
proof (intro conjI allI impI)
  show "perform http c op w =
     (case http (request_of c op) w of
        (Inl e, w') \<Rightarrow> (Inl e, w')
      | (Inr r, w') \<Rightarrow>
          (if 400 \<le> status_code r \<and> status_code r < 600 then Inl (HTTPError r)
           else result_of op r, w'))"
    by (rule perform_outcome)
next
  fix r w'
  assume h: "http (request_of c op) w = (Inr r, w')"
  have p: "fst (perform http c op w) =
      (if 400 \<le> status_code r \<and> status_code r < 600 then Inl (HTTPError r) else result_of op r)"
    by (simp add: perform_outcome h)
  show "(\<exists>x. fst (perform http c op w) = Inl (HTTPError x))
            \<longleftrightarrow> (400 \<le> status_code r \<and> status_code r < 600)"
    unfolding p by (simp add: result_of_not_http)
qed

theorem client_call_outcome_witness:
  "fixed_reply \<lparr> status_code = 404, content = ''gone'', json_body = None \<rparr>
     (request_of (init ''key'' ''https://codility.com/api/'') (Get_session_data (JStr ''s1''))) 0
     = (Inr \<lparr> status_code = 404, content = ''gone'', json_body = None \<rparr>, 1)
   \<and> perform (fixed_reply \<lparr> status_code = 404, content = ''gone'', json_body = None \<rparr>)
     (init ''key'' ''https://codility.com/api/'') (Get_session_data (JStr ''s1'')) 0
     = (Inl (HTTPError \<lparr> status_code = 404, content = ''gone'', json_body = None \<rparr>), 1)
   \<and> perform (fixed_reply \<lparr> status_code = 200, content = ''{}'', json_body = Some (JDict []) \<rparr>)
     (init ''key'' ''https://codility.com/api/'') List_tests 0
     = (Inr (Parsed (JDict [])), 1)"
  using client_call_outcome
      [of "fixed_reply \<lparr> status_code = 404, content = ''gone'', json_body = None \<rparr>"
          "init ''key'' ''https://codility.com/api/''" "Get_session_data (JStr ''s1'')" 0]
    client_call_outcome
      [of "fixed_reply \<lparr> status_code = 200, content = ''{}'', json_body = Some (JDict []) \<rparr>"
          "init ''key'' ''https://codility.com/api/''" "List_tests" 0]
  by (simp add: fixed_reply_def)

text \<open>
  Claim C3 as written fails three ways. A response with status 300 is not 2xx, and the call
  returns its decoded body instead of raising. A response with status 204 and an empty
  body is 2xx, and the call raises (the decoder's exception). A 2xx response to the
  cancellation has its body dropped: the method returns nothing.
\<close>

theorem non_2xx_counterexample:
  "perform (fixed_reply \<lparr> status_code = 300, content = ''{}'', json_body = Some (JDict []) \<rparr>)
     (init ''key'' ''https://codility.com/api'') (Get_session_data (JStr ''s1'')) 0
     = (Inr (Parsed (JDict [])), 1)
   \<and> perform (fixed_reply \<lparr> status_code = 204, content = [], json_body = None \<rparr>)
     (init ''key'' ''https://codility.com/api'') List_tests 0
     = (Inl JSONDecodeError, 1)
   \<and> perform (fixed_reply \<lparr> status_code = 200, content = ''{}'', json_body = Some (JDict []) \<rparr>)
     (init ''key'' ''https://codility.com/api'') (Cancel_session (JStr ''s1'')) 0
     = (Inr Nothing, 1)"
  by (simp add: get_session_data_def list_tests_def cancel_session_def call_json_def send_def
      raise_for_status_def response_json_def returning_def fixed_reply_def init_def)

section \<open>Constructing the client\<close>

text \<open>\<^verbatim>\<open>rstrip\<close> removes a run of the character at the end, and all of it.\<close>

lemma py_rstrip_split: "\<exists>n. s = py_rstrip ch s @ replicate n ch"
proof -
  let ?P = "\<lambda>c. c = ch"
  let ?t = "takeWhile ?P (rev s)"
  have "s = rev (rev s)" by simp
  also have "\<dots> = rev (?t @ dropWhile ?P (rev s))" by (simp only: takeWhile_dropWhile_id)
  also have "\<dots> = py_rstrip ch s @ rev ?t" by (simp only: rev_append py_rstrip_def)
  finally have s: "s = py_rstrip ch s @ rev ?t" .
  have "rev ?t = replicate (length (rev ?t)) ch"
    by (rule replicate_eqI) (auto dest: set_takeWhileD)
  with s show ?thesis by metis
qed

lemma py_rstrip_end: "\<not> suffix [ch] (py_rstrip ch s)"
proof
  assume "suffix [ch] (py_rstrip ch s)"
  then obtain zs where zs: "py_rstrip ch s = zs @ [ch]" by (auto simp: suffix_def)
  then have "rev (py_rstrip ch s) = ch # rev zs" by simp
  then have d: "dropWhile (\<lambda>c. c = ch) (rev s) = ch # rev zs"
    by (simp add: py_rstrip_def)
  have "\<not> (hd (dropWhile (\<lambda>c. c = ch) (rev s)) = ch)"
    by (rule hd_dropWhile) (simp add: d)
  then show False by (simp add: d)
qed

text \<open>
  Claim C4, as the code has it. The constructor accepts every credential string, the empty
  one too, and stores it in the \<^verbatim>\<open>Authorization\<close> header after \<^verbatim>\<open>Bearer \<close>; the base URL is
  stored without its trailing slashes, all of them. It is \<^verbatim>\<open>main\<close> that refuses a missing
  or empty credential, before it constructs a client and without any request.
\<close>

theorem init_accepts_any_key:
  "headers (init api_key url) =
      [(''Authorization'', ''Bearer '' @ api_key), (''Content-Type'', ''application/json'')]
   \<and> (\<exists>n. url = base_url (init api_key url) @ replicate n CHR ''/'')
   \<and> \<not> suffix ''/'' (base_url (init api_key url))
   \<and> main http fs None typed w =
       (\<lparr> stdout = [[Lit ''Error: Please set the CODILITY_API_KEY environment variable.'']],
          written = None, ending = Exit 1 \<rparr>, w)
   \<and> main http fs (Some []) typed w =
       (\<lparr> stdout = [[Lit ''Error: Please set the CODILITY_API_KEY environment variable.'']],
          written = None, ending = Exit 1 \<rparr>, w)"
  using py_rstrip_split [of url "CHR ''/''"] py_rstrip_end [of "CHR ''/''" url]
  by (simp add: init_def main_def stop_def)

text \<open>
  Claim C4 as written fails at the empty credential: the constructor returns a client, and
  the client sends requests.
\<close>

theorem empty_key_counterexample:
  "init [] ''https://codility.com/api/'' =
     \<lparr> base_url = ''https://codility.com/api'',
       headers = [(''Authorization'', ''Bearer ''), (''Content-Type'', ''application/json'')] \<rparr>
   \<and> perform (fixed_reply \<lparr> status_code = 200, content = ''{}'', json_body = Some (JDict []) \<rparr>)
       (init [] ''https://codility.com/api/'') List_tests 0
     = (Inr (Parsed (JDict [])), 1)"
  by (simp add: init_def py_rstrip_def list_tests_def call_json_def send_def
      raise_for_status_def response_json_def returning_def fixed_reply_def)

section \<open>The loop over the sessions\<close>

text \<open>What a call that did not raise tells about its arguments.\<close>

lemma py_get_Inr: "py_get obj key dflt = Inr v \<Longrightarrow>
    \<exists>kvs. obj = JDict kvs \<and> v = (case map_of kvs key of None \<Rightarrow> dflt | Some x \<Rightarrow> x)"
  by (cases obj) auto

lemma flatten_data_Inr: "flatten_data data similarity = Inr rec \<Longrightarrow>
    \<exists>d sim. data = JDict d \<and> similarity = JDict sim
      \<and> rec = flatten_similarity sim (flatten_session d [])"
  by (cases data; cases similarity) (auto simp: flatten_data_def)

text \<open>The body of the loop, read backwards from its result.\<close>

lemma process_session_row:
  assumes "process_session http c sess w = (Inr (Some row), w')"
  shows "\<exists>sid data w1 end_time similarity candidate rec first_name last_name email.
           py_get sess ''id'' JNull = Inr sid
         \<and> get_session_data http c sid w = (Inr data, w1)
         \<and> py_get data ''end_time'' JNull = Inr end_time \<and> py_truthy end_time
         \<and> get_similarity_results http c sid w1 = (Inr similarity, w')
         \<and> py_get data ''candidate'' (JDict []) = Inr candidate
         \<and> flatten_data data similarity = Inr rec
         \<and> py_get candidate ''firstName'' (JStr []) = Inr first_name
         \<and> py_get candidate ''lastName'' (JStr []) = Inr last_name
         \<and> py_get candidate ''email'' (JStr []) = Inr email
         \<and> row = AList.update ''email'' email
                   (AList.update ''last_name'' last_name
                     (AList.update ''first_name'' first_name rec))"
  using assms unfolding process_session_def
  by (simp split: sum.splits prod.splits if_splits)

lemma process_session_skip:
  assumes "py_get sess ''id'' JNull = Inr sid"
      and "get_session_data http c sid w = (Inr data, w1)"
      and "py_get data ''end_time'' JNull = Inr end_time"
  shows "\<not> py_truthy end_time \<Longrightarrow> process_session http c sess w = (Inr None, w1)"
    and "py_truthy end_time \<Longrightarrow> process_session http c sess w \<noteq> (Inr None, w2)"
  using assms unfolding process_session_def
  by (simp_all split: sum.splits prod.splits if_splits)

lemma process_session_fetched:
  assumes "process_session http c sess w = (Inr res, w')"
  shows "\<exists>sid data w1 end_time.
           py_get sess ''id'' JNull = Inr sid
         \<and> get_session_data http c sid w = (Inr data, w1)
         \<and> py_get data ''end_time'' JNull = Inr end_time
         \<and> (res \<noteq> None \<longleftrightarrow> py_truthy end_time)"
  using assms unfolding process_session_def
  by (auto split: sum.splits prod.splits if_splits)


text \<open>
  The keys \<^verbatim>\<open>flatten_data\<close> produces all carry one of the two prefixes; the three promoted
  names carry neither, so assigning them appends three entries.
\<close>

lemma keys_flattened:
  "fst ` set (flatten_similarity sim (flatten_session d [])) =
     (\<lambda>k. ''session_'' @ k) ` (fst ` set d - {''candidate''}) \<union> (\<lambda>k. ''similarity_'' @ k) ` (fst ` set sim)"
  by (simp add: keys_flatten_similarity keys_flatten_session)

lemma flatten_data_keys:
  assumes "flatten_data data similarity = Inr rec" and "k \<in> fst ` set rec"
  shows "prefix ''session_'' k \<or> prefix ''similarity_'' k"
proof -
  from flatten_data_Inr [OF assms(1)] obtain d sim
    where "rec = flatten_similarity sim (flatten_session d [])" by blast
  with assms(2) have "k \<in> (\<lambda>k. ''session_'' @ k) ` (fst ` set d - {''candidate''})
      \<union> (\<lambda>k. ''similarity_'' @ k) ` (fst ` set sim)"
    by (simp only: keys_flattened)
  then show ?thesis by (auto simp only: prefix_def)
qed

lemma promoted_not_prefixed:
  "\<not> prefix ''session_'' ''first_name''" "\<not> prefix ''similarity_'' ''first_name''"
  "\<not> prefix ''session_'' ''last_name''" "\<not> prefix ''similarity_'' ''last_name''"
  "\<not> prefix ''session_'' ''email''" "\<not> prefix ''similarity_'' ''email''"
  by simp_all

lemma promoted_appended:
  assumes "flatten_data data similarity = Inr rec"
  shows "AList.update ''email'' em (AList.update ''last_name'' ln (AList.update ''first_name'' fn rec))
         = rec @ [(''first_name'', fn), (''last_name'', ln), (''email'', em)]"
proof -
  have f: "''first_name'' \<notin> fst ` set rec"
    using flatten_data_keys [OF assms, of "''first_name''"] promoted_not_prefixed by blast
  have l: "''last_name'' \<notin> fst ` set rec"
    using flatten_data_keys [OF assms, of "''last_name''"] promoted_not_prefixed by blast
  have e: "''email'' \<notin> fst ` set rec"
    using flatten_data_keys [OF assms, of "''email''"] promoted_not_prefixed by blast
  have 1: "AList.update ''first_name'' fn rec = rec @ [(''first_name'', fn)]"
    by (rule update_fresh [OF f])
  have 2: "AList.update ''last_name'' ln (rec @ [(''first_name'', fn)])
      = (rec @ [(''first_name'', fn)]) @ [(''last_name'', ln)]"
    by (rule update_fresh) (use l in simp)
  have 3: "AList.update ''email'' em ((rec @ [(''first_name'', fn)]) @ [(''last_name'', ln)])
      = ((rec @ [(''first_name'', fn)]) @ [(''last_name'', ln)]) @ [(''email'', em)]"
    by (rule update_fresh) (use e in simp)
  show ?thesis unfolding 1 2 3 by simp
qed

text \<open>The loop only appends to \<^verbatim>\<open>completed_records\<close>, and runs through a list in order.\<close>

lemma collect_acc:
  "collect http c xs recs w =
     (case collect http c xs [] w of
        (Inl e, w') \<Rightarrow> (Inl e, w')
      | (Inr new, w') \<Rightarrow> (Inr (recs @ new), w'))"
proof (induction xs arbitrary: recs w)
  case Nil
  then show ?case by simp
next
  case (Cons sess rest)
  show ?case
  proof (cases "process_session http c sess w")
    case (Pair res w1)
    show ?thesis
    proof (cases res)
      case (Inl e)
      with Pair show ?thesis by simp
    next
      case (Inr contrib)
      show ?thesis
      proof (cases contrib)
        case None
        with Pair Inr show ?thesis by (simp add: Cons.IH [of recs w1])
      next
        case (Some r)
        with Pair Inr show ?thesis
          by (simp add: Cons.IH [of "recs @ [r]" w1] Cons.IH [of "[r]" w1]
              split: prod.splits sum.splits)
      qed
    qed
  qed
qed

lemma collect_append:
  "collect http c (xs @ ys) recs w =
     (case collect http c xs recs w of
        (Inl e, w') \<Rightarrow> (Inl e, w')
      | (Inr r, w') \<Rightarrow> collect http c ys r w')"
  by (induction xs arbitrary: recs w) (auto split: prod.splits sum.splits option.splits)


text \<open>
  Claim C2. Take any list of sessions the loop goes through without raising, and any
  session in it. The sessions before it leave some records; its detail record is fetched;
  the records at the end are those, then the contribution of this session, then the records
  of the sessions after it; and the contribution is one record if the \<^verbatim>\<open>end_time\<close> of the
  fetched detail record (\<^verbatim>\<open>None\<close> when the field is absent) is truthy, and nothing if it is
  not. In particular a detail record whose \<^verbatim>\<open>end_time\<close> is absent, null or the empty
  string makes the loop go on to the next session with no record added and no further
  request, and one whose \<^verbatim>\<open>end_time\<close> is \<^verbatim>\<open>"2024-02-02"\<close> is never skipped.
\<close>

theorem completed_sessions_only:
  "(collect http c (before @ sess # after) [] w0 = (Inr completed_records, w') \<longrightarrow>
      (\<exists>recs w sid data w1 end_time contrib w2 later.
            collect http c before [] w0 = (Inr recs, w)
          \<and> py_get sess ''id'' JNull = Inr sid
          \<and> get_session_data http c sid w = (Inr data, w1)
          \<and> py_get data ''end_time'' JNull = Inr end_time
          \<and> process_session http c sess w = (Inr contrib, w2)
          \<and> collect http c after [] w2 = (Inr later, w')
          \<and> completed_records = recs @ (case contrib of None \<Rightarrow> [] | Some r \<Rightarrow> [r]) @ later
          \<and> (contrib \<noteq> None \<longleftrightarrow> py_truthy end_time)))
   \<and> (py_get s ''id'' JNull = Inr i \<and> get_session_data http c i v = (Inr (JDict d), v1) \<longrightarrow>
        ((map_of d ''end_time'' = None \<or> map_of d ''end_time'' = Some JNull
            \<or> map_of d ''end_time'' = Some (JStr []))
           \<longrightarrow> process_session http c s v = (Inr None, v1))
      \<and> (map_of d ''end_time'' = Some (JStr ''2024-02-02'')
           \<longrightarrow> process_session http c s v \<noteq> (Inr None, v2)))"
proof (intro conjI impI)
  assume run: "collect http c (before @ sess # after) [] w0 = (Inr completed_records, w')"
  from run obtain recs w where b: "collect http c before [] w0 = (Inr recs, w)"
    and r: "collect http c (sess # after) recs w = (Inr completed_records, w')"
    by (auto simp: collect_append split: prod.splits sum.splits)
  from r obtain contrib w2 where p: "process_session http c sess w = (Inr contrib, w2)"
    and a: "collect http c after (recs @ (case contrib of None \<Rightarrow> [] | Some r \<Rightarrow> [r])) w2
              = (Inr completed_records, w')"
    by (auto split: prod.splits sum.splits option.splits)
  from a obtain later where l: "collect http c after [] w2 = (Inr later, w')"
    and c: "completed_records = (recs @ (case contrib of None \<Rightarrow> [] | Some r \<Rightarrow> [r])) @ later"
    by (subst (asm) collect_acc) (auto split: prod.splits sum.splits)
  from process_session_fetched [OF p] obtain sid data w1 end_time
    where "py_get sess ''id'' JNull = Inr sid"
      and "get_session_data http c sid w = (Inr data, w1)"
      and "py_get data ''end_time'' JNull = Inr end_time"
      and "contrib \<noteq> None \<longleftrightarrow> py_truthy end_time"
    by blast
  with b p l c show "\<exists>recs w sid data w1 end_time contrib w2 later.
            collect http c before [] w0 = (Inr recs, w)
          \<and> py_get sess ''id'' JNull = Inr sid
          \<and> get_session_data http c sid w = (Inr data, w1)
          \<and> py_get data ''end_time'' JNull = Inr end_time
          \<and> process_session http c sess w = (Inr contrib, w2)
          \<and> collect http c after [] w2 = (Inr later, w')
          \<and> completed_records = recs @ (case contrib of None \<Rightarrow> [] | Some r \<Rightarrow> [r]) @ later
          \<and> (contrib \<noteq> None \<longleftrightarrow> py_truthy end_time)"
    by (intro exI conjI) simp_all
next
  assume f: "py_get s ''id'' JNull = Inr i \<and> get_session_data http c i v = (Inr (JDict d), v1)"
    and e: "map_of d ''end_time'' = None \<or> map_of d ''end_time'' = Some JNull
            \<or> map_of d ''end_time'' = Some (JStr [])"
  from e have "\<exists>end_time. py_get (JDict d) ''end_time'' JNull = Inr end_time \<and> \<not> py_truthy end_time"
    by auto
  then obtain end_time where "py_get (JDict d) ''end_time'' JNull = Inr end_time" "\<not> py_truthy end_time"
    by blast
  with f show "process_session http c s v = (Inr None, v1)"
    by (intro process_session_skip(1) [of s i http c v "JDict d" v1 end_time]) simp_all
next
  assume f: "py_get s ''id'' JNull = Inr i \<and> get_session_data http c i v = (Inr (JDict d), v1)"
    and e: "map_of d ''end_time'' = Some (JStr ''2024-02-02'')"
  from e have "py_get (JDict d) ''end_time'' JNull = Inr (JStr ''2024-02-02'')"
    "py_truthy (JStr ''2024-02-02'')"
    by simp_all
  with f show "process_session http c s v \<noteq> (Inr None, v2)"
    by (intro process_session_skip(2) [of s i http c v "JDict d" v1 "JStr ''2024-02-02''"]) simp_all
qed

text \<open>
  Claim C7. For every session that gives a record, if the detail record fetched for it has
  a \<^verbatim>\<open>candidate\<close> dict with \<^verbatim>\<open>firstName\<close>, \<^verbatim>\<open>lastName\<close> and \<^verbatim>\<open>email\<close>, then the record
  has these three values under \<^verbatim>\<open>first_name\<close>, \<^verbatim>\<open>last_name\<close> and \<^verbatim>\<open>email\<close>, and it has no
  key \<^verbatim>\<open>session_candidate\<close>. The claim's candidate
  \<^verbatim>\<open>{"firstName": "Ann", "lastName": "Lee", "email": "a@x.com"}\<close> is the instance
  \<open>fn = JStr ''Ann''\<close>, \<open>ln = JStr ''Lee''\<close>, \<open>em = JStr ''a@x.com''\<close>.
\<close>

theorem candidate_promoted:
  assumes "process_session http c sess w = (Inr (Some row), w')"
      and "py_get sess ''id'' JNull = Inr sid"
      and "get_session_data http c sid w = (Inr (JDict d), w1)"
      and "map_of d ''candidate'' = Some (JDict cand)"
      and "map_of cand ''firstName'' = Some fn"
      and "map_of cand ''lastName'' = Some ln"
      and "map_of cand ''email'' = Some em"
  shows "map_of row ''first_name'' = Some fn \<and> map_of row ''last_name'' = Some ln
       \<and> map_of row ''email'' = Some em \<and> ''session_candidate'' \<notin> fst ` set row"
proof -
  from process_session_row [OF assms(1)] obtain sid' data w1' similarity candidate rec fn' ln' em'
    where id: "py_get sess ''id'' JNull = Inr sid'"
      and data: "get_session_data http c sid' w = (Inr data, w1')"
      and cand: "py_get data ''candidate'' (JDict []) = Inr candidate"
      and flat: "flatten_data data similarity = Inr rec"
      and fn: "py_get candidate ''firstName'' (JStr []) = Inr fn'"
      and ln: "py_get candidate ''lastName'' (JStr []) = Inr ln'"
      and em: "py_get candidate ''email'' (JStr []) = Inr em'"
      and row: "row = AList.update ''email'' em'
                   (AList.update ''last_name'' ln' (AList.update ''first_name'' fn' rec))"
    by blast
  from id assms(2) have "sid' = sid" by simp
  with data assms(3) have d: "data = JDict d" by simp
  with cand assms(4) have "candidate = JDict cand" by simp
  with fn ln em assms(5-7) have v: "fn' = fn" "ln' = ln" "em' = em" by simp_all
  from flatten_data_Inr [OF flat] d obtain sim
    where rec: "rec = flatten_similarity sim (flatten_session d [])" by auto
  have "''session_candidate'' \<notin> fst ` set rec"
    unfolding rec keys_flattened by auto
  then have "''session_candidate'' \<notin> fst ` set row"
    unfolding row by (simp add: AList.dom_update)
  moreover have "map_of row ''first_name'' = Some fn" "map_of row ''last_name'' = Some ln"
    "map_of row ''email'' = Some em"
    unfolding row v by (simp_all add: AList.update_conv')
  ultimately show ?thesis by simp
qed

text \<open>
  Claim C9. Whatever \<^verbatim>\<open>flatten_data\<close> is given, every key of the dict it returns starts
  with \<^verbatim>\<open>session_\<close> or with \<^verbatim>\<open>similarity_\<close>. So for every session that gives a record, the
  record is the flattened dict of the fetched detail and similarity records, unchanged,
  followed by the three entries \<^verbatim>\<open>first_name\<close>, \<^verbatim>\<open>last_name\<close> and \<^verbatim>\<open>email\<close>: nothing is
  overwritten, and the keys of the record with neither prefix are exactly these three.
\<close>

theorem promoted_columns_disjoint:
  "(flatten_data session_data similarity_data = Inr record \<longrightarrow>
      (\<forall>k \<in> fst ` set record. prefix ''session_'' k \<or> prefix ''similarity_'' k))
   \<and> (process_session http c sess w = (Inr (Some row), w') \<longrightarrow>
      (\<exists>sid data w1 similarity flat first_name last_name email.
           py_get sess ''id'' JNull = Inr sid
         \<and> get_session_data http c sid w = (Inr data, w1)
         \<and> get_similarity_results http c sid w1 = (Inr similarity, w')
         \<and> flatten_data data similarity = Inr flat
         \<and> row = flat @ [(''first_name'', first_name), (''last_name'', last_name), (''email'', email)])
      \<and> {k \<in> fst ` set row. \<not> prefix ''session_'' k \<and> \<not> prefix ''similarity_'' k}
           = {''first_name'', ''last_name'', ''email''})"
proof (intro conjI impI)
  assume "flatten_data session_data similarity_data = Inr record"
  then show "\<forall>k \<in> fst ` set record. prefix ''session_'' k \<or> prefix ''similarity_'' k"
    using flatten_data_keys by blast
next
  assume p: "process_session http c sess w = (Inr (Some row), w')"
  from process_session_row [OF p] obtain sid data w1 similarity rec fn ln em
    where id: "py_get sess ''id'' JNull = Inr sid"
      and data: "get_session_data http c sid w = (Inr data, w1)"
      and sim: "get_similarity_results http c sid w1 = (Inr similarity, w')"
      and flat: "flatten_data data similarity = Inr rec"
      and row: "row = AList.update ''email'' em
                   (AList.update ''last_name'' ln (AList.update ''first_name'' fn rec))"
    by blast
  have row': "row = rec @ [(''first_name'', fn), (''last_name'', ln), (''email'', em)]"
    unfolding row by (rule promoted_appended [OF flat])
  with id data sim flat show "\<exists>sid data w1 similarity flat first_name last_name email.
           py_get sess ''id'' JNull = Inr sid
         \<and> get_session_data http c sid w = (Inr data, w1)
         \<and> get_similarity_results http c sid w1 = (Inr similarity, w')
         \<and> flatten_data data similarity = Inr flat
         \<and> row = flat @ [(''first_name'', first_name), (''last_name'', last_name), (''email'', email)]"
    by blast
  have k: "\<forall>k \<in> fst ` set rec. prefix ''session_'' k \<or> prefix ''similarity_'' k"
    using flatten_data_keys [OF flat] by blast
  have "fst ` set row = fst ` set rec \<union> {''first_name'', ''last_name'', ''email''}"
    unfolding row' by auto
  then show "{k \<in> fst ` set row. \<not> prefix ''session_'' k \<and> \<not> prefix ''similarity_'' k}
           = {''first_name'', ''last_name'', ''email''}"
    using k promoted_not_prefixed by blast
qed

text \<open>
  Claim C10. For every session that gives a record: if the fetched detail record has no
  \<^verbatim>\<open>candidate\<close> field, the record has \<^verbatim>\<open>first_name\<close>, \<^verbatim>\<open>last_name\<close> and \<^verbatim>\<open>email\<close>, each
  the empty string; if it has a \<^verbatim>\<open>candidate\<close> dict, each of \<^verbatim>\<open>firstName\<close>, \<^verbatim>\<open>lastName\<close>
  and \<^verbatim>\<open>email\<close> that the dict lacks gives the empty string in its column.
\<close>

theorem candidate_defaults:
  assumes "process_session http c sess w = (Inr (Some row), w')"
      and "py_get sess ''id'' JNull = Inr sid"
      and "get_session_data http c sid w = (Inr (JDict d), w1)"
  shows "(map_of d ''candidate'' = None \<longrightarrow>
            map_of row ''first_name'' = Some (JStr []) \<and> map_of row ''last_name'' = Some (JStr [])
          \<and> map_of row ''email'' = Some (JStr []))
       \<and> (map_of d ''candidate'' = Some (JDict cand) \<longrightarrow>
            (map_of cand ''firstName'' = None \<longrightarrow> map_of row ''first_name'' = Some (JStr []))
          \<and> (map_of cand ''lastName'' = None \<longrightarrow> map_of row ''last_name'' = Some (JStr []))
          \<and> (map_of cand ''email'' = None \<longrightarrow> map_of row ''email'' = Some (JStr [])))"
proof -
  from process_session_row [OF assms(1)] obtain sid' data w1' similarity candidate rec fn ln em
    where id: "py_get sess ''id'' JNull = Inr sid'"
      and data: "get_session_data http c sid' w = (Inr data, w1')"
      and cand: "py_get data ''candidate'' (JDict []) = Inr candidate"
      and fn: "py_get candidate ''firstName'' (JStr []) = Inr fn"
      and ln: "py_get candidate ''lastName'' (JStr []) = Inr ln"
      and em: "py_get candidate ''email'' (JStr []) = Inr em"
      and row: "row = AList.update ''email'' em
                   (AList.update ''last_name'' ln (AList.update ''first_name'' fn rec))"
    by blast
  from id assms(2) have "sid' = sid" by simp
  with data assms(3) have d: "data = JDict d" by simp
  have r: "map_of row ''first_name'' = Some fn" "map_of row ''last_name'' = Some ln"
    "map_of row ''email'' = Some em"
    unfolding row by (simp_all add: AList.update_conv')
  show ?thesis
  proof (intro conjI impI)
    assume "map_of d ''candidate'' = None"
    with cand d have "candidate = JDict []" by simp
    with fn ln em have "fn = JStr []" "ln = JStr []" "em = JStr []" by simp_all
    with r show "map_of row ''first_name'' = Some (JStr [])" "map_of row ''last_name'' = Some (JStr [])"
      "map_of row ''email'' = Some (JStr [])" by simp_all
  next
    assume "map_of d ''candidate'' = Some (JDict cand)"
    with cand d have c: "candidate = JDict cand" by simp
    { assume "map_of cand ''firstName'' = None"
      with fn c r show "map_of row ''first_name'' = Some (JStr [])" by simp }
    { assume "map_of cand ''lastName'' = None"
      with ln c r show "map_of row ''last_name'' = Some (JStr [])" by simp }
    { assume "map_of cand ''email'' = None"
      with em c r show "map_of row ''email'' = Some (JStr [])" by simp }
  qed
qed

section \<open>The loop on the demo account\<close>

text \<open>What the demo account answers to the client, and the three sessions run through the loop body.\<close>

lemma demo_call:
  "call_json demo_server demo_client GET (Lit b # path) None n =
     (case demo_body path of
        Some v \<Rightarrow> (Inr v, Suc n)
      | None \<Rightarrow> (Inl (HTTPError \<lparr> status_code = 404, content = ''not found'', json_body = None \<rparr>), Suc n))"
  by (simp add: call_json_def send_def demo_server_def ok_def raise_for_status_def
      response_json_def split: option.splits)

lemmas demo_fetch = get_session_data_def get_similarity_results_def list_tests_def
  list_test_sessions_def demo_call demo_body_def

lemma demo_A: "process_session demo_server demo_client sess_A n = (Inr (Some row_A), Suc (Suc n))"
  by (simp add: process_session_def demo_fetch flatten_data_def encode_value_def
      sess_A_def data_A_def cand_A_def row_A_def)

lemma demo_B: "process_session demo_server demo_client sess_B n = (Inr None, Suc n)"
  by (simp add: process_session_def demo_fetch sess_B_def data_B_def)

lemma demo_C: "process_session demo_server demo_client sess_C n = (Inr (Some row_C), Suc (Suc n))"
  by (simp add: process_session_def demo_fetch flatten_data_def encode_value_def
      sess_C_def data_C_def row_C_def dumps_str_def escape_char_def)

text \<open>
  The loop on the sessions of test 7: A gives a record, B, whose \<^verbatim>\<open>end_time\<close> is null, gives
  none.
\<close>

theorem completed_sessions_only_witness:
  "collect demo_server demo_client ([sess_A] @ sess_B # []) [] 0 = (Inr [row_A], 3)
   \<and> py_get sess_B ''id'' JNull = Inr (JStr ''B'')
   \<and> get_session_data demo_server demo_client (JStr ''B'') 2 = (Inr (JDict data_B), 3)
   \<and> map_of data_B ''end_time'' = Some JNull
   \<and> process_session demo_server demo_client sess_B 2 = (Inr None, 3)
   \<and> (\<exists>recs w sid data w1 end_time contrib w2 later.
            collect demo_server demo_client [sess_A] [] 0 = (Inr recs, w)
          \<and> py_get sess_B ''id'' JNull = Inr sid
          \<and> get_session_data demo_server demo_client sid w = (Inr data, w1)
          \<and> py_get data ''end_time'' JNull = Inr end_time
          \<and> process_session demo_server demo_client sess_B w = (Inr contrib, w2)
          \<and> collect demo_server demo_client [] [] w2 = (Inr later, 3)
          \<and> [row_A] = recs @ (case contrib of None \<Rightarrow> [] | Some r \<Rightarrow> [r]) @ later
          \<and> (contrib \<noteq> None \<longleftrightarrow> py_truthy end_time))"
proof -
  have h: "collect demo_server demo_client ([sess_A] @ sess_B # []) [] 0 = (Inr [row_A], 3)"
    by (simp add: demo_A demo_B)
  have g: "py_get sess_B ''id'' JNull = Inr (JStr ''B'')"
    "get_session_data demo_server demo_client (JStr ''B'') 2 = (Inr (JDict data_B), 3)"
    by (simp_all add: demo_fetch sess_B_def)
  have e: "map_of data_B ''end_time'' = Some JNull"
    by (simp add: data_B_def)
  note t = completed_sessions_only
    [of demo_server demo_client "[sess_A]" sess_B "[]" 0 "[row_A]" 3 sess_B "JStr ''B''" 2 data_B 3]
  from t h g e show ?thesis by blast
qed


text \<open>The candidate Ann Lee of session A.\<close>

theorem candidate_promoted_witness:
  "process_session demo_server demo_client sess_A 0 = (Inr (Some row_A), 2)
   \<and> py_get sess_A ''id'' JNull = Inr (JStr ''A'')
   \<and> get_session_data demo_server demo_client (JStr ''A'') 0 = (Inr (JDict data_A), 1)
   \<and> map_of data_A ''candidate'' = Some (JDict cand_A)
   \<and> map_of cand_A ''firstName'' = Some (JStr ''Ann'')
   \<and> map_of cand_A ''lastName'' = Some (JStr ''Lee'')
   \<and> map_of cand_A ''email'' = Some (JStr ''a@x.com'')
   \<and> map_of row_A ''first_name'' = Some (JStr ''Ann'')
   \<and> map_of row_A ''last_name'' = Some (JStr ''Lee'')
   \<and> map_of row_A ''email'' = Some (JStr ''a@x.com'')
   \<and> ''session_candidate'' \<notin> fst ` set row_A"
proof -
  have h: "process_session demo_server demo_client sess_A 0 = (Inr (Some row_A), 2)"
    by (simp add: demo_A)
  have g: "py_get sess_A ''id'' JNull = Inr (JStr ''A'')"
    "get_session_data demo_server demo_client (JStr ''A'') 0 = (Inr (JDict data_A), 1)"
    by (simp_all add: demo_fetch sess_A_def)
  have c: "map_of data_A ''candidate'' = Some (JDict cand_A)"
    "map_of cand_A ''firstName'' = Some (JStr ''Ann'')"
    "map_of cand_A ''lastName'' = Some (JStr ''Lee'')"
    "map_of cand_A ''email'' = Some (JStr ''a@x.com'')"
    by (simp_all add: data_A_def cand_A_def)
  from candidate_promoted [OF h g c] h g c show ?thesis by simp
qed

text \<open>The keys of the record of session A.\<close>

theorem promoted_columns_disjoint_witness:
  "flatten_data (JDict data_A) (JDict [(''score'', JFloat ''0.2'')])
     = Inr [(''session_end_time'', JStr ''2024-02-02''), (''session_score'', JInt 3),
            (''similarity_score'', JFloat ''0.2'')]
   \<and> (prefix ''session_'' ''session_score'' \<or> prefix ''similarity_'' ''session_score'')
   \<and> process_session demo_server demo_client sess_A 0 = (Inr (Some row_A), 2)
   \<and> {k \<in> fst ` set row_A. \<not> prefix ''session_'' k \<and> \<not> prefix ''similarity_'' k}
        = {''first_name'', ''last_name'', ''email''}"
proof -
  have f: "flatten_data (JDict data_A) (JDict [(''score'', JFloat ''0.2'')])
     = Inr [(''session_end_time'', JStr ''2024-02-02''), (''session_score'', JInt 3),
            (''similarity_score'', JFloat ''0.2'')]"
    by (simp add: flatten_data_def encode_value_def data_A_def)
  have h: "process_session demo_server demo_client sess_A 0 = (Inr (Some row_A), 2)"
    by (simp add: demo_A)
  note t = promoted_columns_disjoint
    [of "JDict data_A" "JDict [(''score'', JFloat ''0.2'')]"
        "[(''session_end_time'', JStr ''2024-02-02''), (''session_score'', JInt 3),
          (''similarity_score'', JFloat ''0.2'')]"
        demo_server demo_client sess_A 0 row_A 2]
  note a = t [THEN conjunct1, THEN mp, OF f]
  note b = t [THEN conjunct2, THEN mp, OF h, THEN conjunct2]
  from a have "prefix ''session_'' ''session_score'' \<or> prefix ''similarity_'' ''session_score''"
    by simp
  with f h b show ?thesis by (intro conjI)
qed

text \<open>Session C has no candidate.\<close>

theorem candidate_defaults_witness:
  "process_session demo_server demo_client sess_C 0 = (Inr (Some row_C), 2)
   \<and> py_get sess_C ''id'' JNull = Inr (JStr ''C'')
   \<and> get_session_data demo_server demo_client (JStr ''C'') 0 = (Inr (JDict data_C), 1)
   \<and> map_of data_C ''candidate'' = None
   \<and> map_of row_C ''first_name'' = Some (JStr [])
   \<and> map_of row_C ''last_name'' = Some (JStr [])
   \<and> map_of row_C ''email'' = Some (JStr [])"
proof -
  have h: "process_session demo_server demo_client sess_C 0 = (Inr (Some row_C), 2)"
    by (simp add: demo_C)
  have g: "py_get sess_C ''id'' JNull = Inr (JStr ''C'')"
    "get_session_data demo_server demo_client (JStr ''C'') 0 = (Inr (JDict data_C), 1)"
    by (simp_all add: demo_fetch sess_C_def)
  have c: "map_of data_C ''candidate'' = None"
    by (simp add: data_C_def)
  from candidate_defaults [OF h g, of "[]"] h g c show ?thesis by simp
qed

section \<open>Resolving the name\<close>

text \<open>
  A listing loop that ran through means every test is a dict with an \<^verbatim>\<open>id\<close>; on such a
  list the comprehension of line 60 is a filter.
\<close>

lemma test_line_Inr: "test_line t = Inr l \<Longrightarrow> \<exists>kvs i. t = JDict kvs \<and> map_of kvs ''id'' = Some i"
  by (cases t) (auto simp: test_line_def Let_def split: option.splits)

lemma print_tests_ok:
  "print_tests ts = (ls, None) \<Longrightarrow> \<forall>t \<in> set ts. \<exists>kvs i. t = JDict kvs \<and> map_of kvs ''id'' = Some i"
proof (induction ts arbitrary: ls)
  case Nil
  then show ?case by simp
next
  case (Cons t ts)
  from Cons.prems obtain l ls' where l: "test_line t = Inr l" and r: "print_tests ts = (ls', None)"
    by (auto split: sum.splits prod.splits)
  from test_line_Inr [OF l] Cons.IH [OF r] show ?case by simp
qed

lemma fetch_tests_listed:
  assumes "fetch_tests http c w = (Inr (test_list, out0), w1)"
  shows "\<exists>ls. print_tests test_list = (ls, None) \<and> out0 = [Lit ''Available tests:''] # ls"
  using assms unfolding fetch_tests_def
  by (auto split: sum.splits prod.splits if_splits option.splits)

lemma name_matches_dict:
  "name_matches (JDict kvs) n =
     Inr (py_get (JDict kvs) ''title'' JNull = Inr (JStr n) \<or> py_get (JDict kvs) ''name'' JNull = Inr (JStr n))"
  by (simp add: name_matches_def)

lemma find_matches_dicts:
  "\<forall>t \<in> set ts. \<exists>kvs. t = JDict kvs \<Longrightarrow>
   find_matches ts n =
     Inr (filter (\<lambda>t. py_get t ''title'' JNull = Inr (JStr n) \<or> py_get t ''name'' JNull = Inr (JStr n)) ts)"
proof (induction ts)
  case Nil
  then show ?case by simp
next
  case (Cons t ts)
  then obtain kvs where t: "t = JDict kvs" by auto
  from Cons have "find_matches ts n =
     Inr (filter (\<lambda>t. py_get t ''title'' JNull = Inr (JStr n) \<or> py_get t ''name'' JNull = Inr (JStr n)) ts)"
    by simp
  then show ?case unfolding t by (simp add: name_matches_dict del: py_get.simps)
qed

lemma filter_first:
  "\<forall>u \<in> set before. \<not> P u \<Longrightarrow> P t \<Longrightarrow> filter P (before @ t # after) = t # filter P after"
  by (induction before) auto

lemma main_run: "api_key \<noteq> [] \<Longrightarrow> main http fs (Some api_key) typed w = run http fs api_key typed w"
  by (simp add: main_def)

text \<open>
  Claim C5, as the code has it. Take any run of \<^verbatim>\<open>main\<close> that has fetched and listed a
  test list, and any line the operator types; the name is that line with the white space
  at both ends stripped (\<^verbatim>\<open>input(...).strip()\<close>). If no test of the list has a \<^verbatim>\<open>title\<close> or a \<^verbatim>\<open>name\<close> equal to the name,
  \<^verbatim>\<open>main\<close> prints that no test was found and exits with code 1, with no file written and no
  further request. Otherwise, for the first test in list order whose \<^verbatim>\<open>title\<close> or \<^verbatim>\<open>name\<close>
  is equal to the name, \<^verbatim>\<open>main\<close> goes on to export the sessions of the \<^verbatim>\<open>id\<close> of that test.
\<close>

theorem name_resolution:
  assumes "api_key \<noteq> []"
      and "fetch_tests http (init api_key default_base_url) w = (Inr (test_list, out0), w1)"
  shows "((\<forall>t \<in> set test_list. py_get t ''title'' JNull \<noteq> Inr (JStr (py_strip raw))
                              \<and> py_get t ''name'' JNull \<noteq> Inr (JStr (py_strip raw)))
          \<longrightarrow> main http fs (Some api_key) (Some raw) w =
               (\<lparr> stdout = out0 @ [prompt, [Lit (''No test found with name '' @ [CHR 0x27]
                                                   @ py_strip raw @ [CHR 0x27])]],
                  written = None, ending = Exit 1 \<rparr>, w1))
       \<and> (test_list = before @ t # after
          \<and> (\<forall>u \<in> set before. py_get u ''title'' JNull \<noteq> Inr (JStr (py_strip raw))
                              \<and> py_get u ''name'' JNull \<noteq> Inr (JStr (py_strip raw)))
          \<and> (py_get t ''title'' JNull = Inr (JStr (py_strip raw))
               \<or> py_get t ''name'' JNull = Inr (JStr (py_strip raw)))
          \<longrightarrow> (\<exists>test_id. py_getitem t ''id'' = Inr test_id
                \<and> main http fs (Some api_key) (Some raw) w =
                    export_test http fs (init api_key default_base_url) (out0 @ [prompt])
                      (py_strip raw) test_id w1))"
proof -
  let ?n = "py_strip raw"
  let ?P = "\<lambda>t. py_get t ''title'' JNull = Inr (JStr ?n) \<or> py_get t ''name'' JNull = Inr (JStr ?n)"
  from fetch_tests_listed [OF assms(2)] obtain ls where ls: "print_tests test_list = (ls, None)"
    by blast
  note dicts = print_tests_ok [OF ls]
  then have "\<forall>t \<in> set test_list. \<exists>kvs. t = JDict kvs" by blast
  then have fm: "find_matches test_list ?n = Inr (filter ?P test_list)"
    by (rule find_matches_dicts)
  have m: "main http fs (Some api_key) (Some raw) w =
      (case choose_test test_list out0 (Some raw) of
         Inl ended \<Rightarrow> (ended, w1)
       | Inr (out, test_name, test_id) \<Rightarrow>
           export_test http fs (init api_key default_base_url) out test_name test_id w1)"
    by (simp add: main_run [OF assms(1)] run_def assms(2))
  show ?thesis
  proof (intro conjI impI)
    assume "\<forall>t \<in> set test_list. py_get t ''title'' JNull \<noteq> Inr (JStr ?n)
                              \<and> py_get t ''name'' JNull \<noteq> Inr (JStr ?n)"
    then have "filter ?P test_list = []" by (simp add: filter_empty_conv)
    with fm have "choose_test test_list out0 (Some raw) =
        Inl (stop ((out0 @ [prompt]) @ [[Lit (''No test found with name '' @ [CHR 0x27] @ ?n @ [CHR 0x27])]]) (Exit 1))"
      by (simp add: choose_test_def)
    then show "main http fs (Some api_key) (Some raw) w =
               (\<lparr> stdout = out0 @ [prompt, [Lit (''No test found with name '' @ [CHR 0x27]
                                                   @ ?n @ [CHR 0x27])]],
                  written = None, ending = Exit 1 \<rparr>, w1)"
      by (simp add: m stop_def)
  next
    assume a: "test_list = before @ t # after
          \<and> (\<forall>u \<in> set before. py_get u ''title'' JNull \<noteq> Inr (JStr ?n)
                              \<and> py_get u ''name'' JNull \<noteq> Inr (JStr ?n))
          \<and> ?P t"
    then have "filter ?P test_list = t # filter ?P after"
      using filter_first [of before ?P t after] by blast
    with fm have f: "find_matches test_list ?n = Inr (t # filter ?P after)" by simp
    from a dicts obtain kvs i where t: "t = JDict kvs" "map_of kvs ''id'' = Some i"
      by auto
    then have i: "py_getitem t ''id'' = Inr i" by simp
    from f i have "choose_test test_list out0 (Some raw) = Inr (out0 @ [prompt], ?n, i)"
      by (simp add: choose_test_def)
    with i show "\<exists>test_id. py_getitem t ''id'' = Inr test_id
                \<and> main http fs (Some api_key) (Some raw) w =
                    export_test http fs (init api_key default_base_url) (out0 @ [prompt]) ?n test_id w1"
      by (simp add: m)
  qed
qed


text \<open>The demo account has two tests titled \<^verbatim>\<open>Backend Role\<close>; the first one, test 7, is taken.\<close>

lemma demo_fetch_tests:
  "fetch_tests demo_server (init ''key'' default_base_url) n = (Inr (demo_tests, demo_listing), Suc n)"
  by (simp add: fetch_tests_def demo_fetch demo_client_def [symmetric] demo_tests_def
      demo_listing_def test_line_def py_or_def)

lemma strip_backend: "py_strip '' Backend Role '' = ''Backend Role''"
  by (simp add: py_strip_def is_space_def)

lemma strip_nope: "py_strip ''Nope'' = ''Nope''"
  by (simp add: py_strip_def is_space_def)

theorem name_resolution_witness:
  "''key'' \<noteq> []
   \<and> fetch_tests demo_server (init ''key'' default_base_url) 0 = (Inr (demo_tests, demo_listing), 1)
   \<and> main demo_server flat_directory (Some ''key'') (Some ''Nope'') 0 =
        (\<lparr> stdout = demo_listing @ [prompt, [Lit (''No test found with name '' @ [CHR 0x27]
                                                     @ ''Nope'' @ [CHR 0x27])]],
           written = None, ending = Exit 1 \<rparr>, 1)
   \<and> main demo_server flat_directory (Some ''key'') (Some '' Backend Role '') 0 =
        export_test demo_server flat_directory (init ''key'' default_base_url) (demo_listing @ [prompt])
          ''Backend Role'' (JInt 7) 1"
proof -
  have k: "''key'' \<noteq> []" by simp
  have f: "fetch_tests demo_server (init ''key'' default_base_url) 0 = (Inr (demo_tests, demo_listing), 1)"
    by (simp add: demo_fetch_tests)
  have none: "\<forall>t \<in> set demo_tests. py_get t ''title'' JNull \<noteq> Inr (JStr (py_strip ''Nope''))
                              \<and> py_get t ''name'' JNull \<noteq> Inr (JStr (py_strip ''Nope''))"
    by (simp add: demo_tests_def strip_nope)
  have first: "demo_tests = [] @ JDict [(''id'', JInt 7), (''title'', JStr ''Backend Role'')]
         # [JDict [(''id'', JInt 8), (''name'', JStr ''Frontend Role'')],
            JDict [(''id'', JInt 9), (''title'', JStr ''Backend Role''), (''name'', JStr ''Archive'')]]
       \<and> (\<forall>u \<in> set []. py_get u ''title'' JNull \<noteq> Inr (JStr (py_strip '' Backend Role ''))
                              \<and> py_get u ''name'' JNull \<noteq> Inr (JStr (py_strip '' Backend Role '')))
       \<and> (py_get (JDict [(''id'', JInt 7), (''title'', JStr ''Backend Role'')]) ''title'' JNull
              = Inr (JStr (py_strip '' Backend Role ''))
            \<or> py_get (JDict [(''id'', JInt 7), (''title'', JStr ''Backend Role'')]) ''name'' JNull
              = Inr (JStr (py_strip '' Backend Role '')))"
    by (simp add: demo_tests_def strip_backend)
  note a = name_resolution [OF k f, of "''Nope''" flat_directory, THEN conjunct1, THEN mp, OF none]
  note b = name_resolution [OF k f, of "'' Backend Role ''" flat_directory "[]"
      "JDict [(''id'', JInt 7), (''title'', JStr ''Backend Role'')]"
      "[JDict [(''id'', JInt 8), (''name'', JStr ''Frontend Role'')],
        JDict [(''id'', JInt 9), (''title'', JStr ''Backend Role''), (''name'', JStr ''Archive'')]]",
      THEN conjunct2, THEN mp, OF first]
  from b have "main demo_server flat_directory (Some ''key'') (Some '' Backend Role '') 0 =
        export_test demo_server flat_directory (init ''key'' default_base_url) (demo_listing @ [prompt])
          ''Backend Role'' (JInt 7) 1"
    by (auto simp: strip_backend)
  with k f a show ?thesis by (simp add: strip_nope)
qed


section \<open>The columns of the file\<close>

text \<open>Every record the loop collects has each key once.\<close>

lemma flatten_session_distinct:
  "distinct (map fst record) \<Longrightarrow> distinct (map fst (flatten_session sd record))"
  by (induction sd "record" rule: flatten_session.induct) (simp_all add: AList.distinct_update)

lemma flatten_similarity_distinct:
  "distinct (map fst record) \<Longrightarrow> distinct (map fst (flatten_similarity sim record))"
  by (induction sim "record" rule: flatten_similarity.induct) (simp_all add: AList.distinct_update)

lemma process_session_distinct:
  assumes "process_session http c sess w = (Inr (Some row), w')"
  shows "distinct (map fst row)"
proof -
  from process_session_row [OF assms] obtain data similarity rec fn ln em
    where flat: "flatten_data data similarity = Inr rec"
      and row: "row = AList.update ''email'' em
                   (AList.update ''last_name'' ln (AList.update ''first_name'' fn rec))"
    by blast
  from flatten_data_Inr [OF flat] obtain d sim
    where "rec = flatten_similarity sim (flatten_session d [])" by blast
  then have "distinct (map fst rec)"
    by (simp add: flatten_similarity_distinct flatten_session_distinct)
  then show ?thesis unfolding row by (intro AList.distinct_update)
qed

lemma collect_distinct:
  "collect http c xs recs w = (Inr out, w') \<Longrightarrow> \<forall>r \<in> set recs. distinct (map fst r)
     \<Longrightarrow> \<forall>r \<in> set out. distinct (map fst r)"
proof (induction xs arbitrary: recs w)
  case Nil
  then show ?case by simp
next
  case (Cons sess rest)
  from Cons.prems(1) obtain contrib w1 where p: "process_session http c sess w = (Inr contrib, w1)"
    and r: "collect http c rest (recs @ (case contrib of None \<Rightarrow> [] | Some r \<Rightarrow> [r])) w1 = (Inr out, w')"
    by (auto split: prod.splits sum.splits option.splits)
  have "\<forall>r \<in> set (recs @ (case contrib of None \<Rightarrow> [] | Some r \<Rightarrow> [r])). distinct (map fst r)"
    using Cons.prems(2) p process_session_distinct by (auto split: option.splits)
  from Cons.IH [OF r this] show ?case .
qed

text \<open>A run of \<^verbatim>\<open>main\<close> that gets through the loop ends in one of two ways.\<close>

lemma main_exports:
  assumes "api_key \<noteq> []"
      and "fetch_tests http (init api_key default_base_url) w = (Inr (test_list, out0), w1)"
      and "choose_test test_list out0 typed = Inr (out, test_name, test_id)"
      and "fetch_sessions http (init api_key default_base_url) out test_id w1 = (Inr sess_list, w2)"
      and "collect http (init api_key default_base_url) sess_list [] w2 = (Inr completed_records, w3)"
  shows "main http fs (Some api_key) typed w =
     (if completed_records = []
      then (stop (out @ [[Lit ''No completed sessions found for this test.'']]) (Exit 0), w3)
      else (export_records fs out test_name completed_records, w3))"
  by (simp add: main_run [OF assms(1)] run_def export_test_def assms(2-5))

lemma export_records_header:
  "fs (csv_filename test_name) = None \<Longrightarrow>
   \<exists>f. written (export_records fs out test_name (first # others)) = Some f
       \<and> header f = sort (map fst first) \<and> file_name f = csv_filename test_name"
  by (simp add: export_records_def Let_def split: prod.splits option.splits)

lemma export_records_not_opened:
  "fs (csv_filename test_name) = Some e \<Longrightarrow>
   export_records fs out test_name (first # others) =
     \<lparr> stdout = out, written = None, ending = Raised e \<rparr>"
  by (simp add: export_records_def Let_def stop_def)

text \<open>
  Claim C6. Take any run of \<^verbatim>\<open>main\<close> whose loop over the sessions collects at least one
  record. If the file can be opened, a file is written under the name made of the test
  name, and its header is the sorted list of the keys of the first record collected:
  sorted, without repetition, and with exactly the keys of the first record, so that a key
  that only a later record has is not in the header. If opening the file raises, that
  exception ends the process and no file is written.
\<close>

theorem header_from_first_record:
  assumes "api_key \<noteq> []"
      and "fetch_tests http (init api_key default_base_url) w = (Inr (test_list, out0), w1)"
      and "choose_test test_list out0 typed = Inr (out, test_name, test_id)"
      and "fetch_sessions http (init api_key default_base_url) out test_id w1 = (Inr sess_list, w2)"
      and "collect http (init api_key default_base_url) sess_list [] w2 = (Inr (first # others), w3)"
  shows "(fs (csv_filename test_name) = None \<longrightarrow>
            (\<exists>f. written (fst (main http fs (Some api_key) typed w)) = Some f
               \<and> file_name f = csv_filename test_name
               \<and> header f = sort (map fst first)
               \<and> sorted (header f) \<and> distinct (header f)
               \<and> set (header f) = fst ` set first
               \<and> (\<forall>r \<in> set others. \<forall>k \<in> fst ` set r.
                     k \<notin> fst ` set first \<longrightarrow> k \<notin> set (header f))))
       \<and> (fs (csv_filename test_name) = Some e \<longrightarrow>
            main http fs (Some api_key) typed w =
              (\<lparr> stdout = out, written = None, ending = Raised e \<rparr>, w3))"
proof (intro conjI impI)
  have m: "main http fs (Some api_key) typed w = (export_records fs out test_name (first # others), w3)"
    using main_exports [OF assms, of fs] by simp
  {
    assume o: "fs (csv_filename test_name) = None"
    from export_records_header [of fs test_name out first others, OF o] obtain f
      where f: "written (export_records fs out test_name (first # others)) = Some f"
        and h: "header f = sort (map fst first)"
        and n: "file_name f = csv_filename test_name"
      by blast
    have d: "distinct (map fst first)"
      using collect_distinct [OF assms(5)] by simp
    have "sorted (header f)" "distinct (header f)" "set (header f) = fst ` set first"
      unfolding h using d by simp_all
    with f h n m show "\<exists>f. written (fst (main http fs (Some api_key) typed w)) = Some f
               \<and> file_name f = csv_filename test_name
               \<and> header f = sort (map fst first)
               \<and> sorted (header f) \<and> distinct (header f)
               \<and> set (header f) = fst ` set first
               \<and> (\<forall>r \<in> set others. \<forall>k \<in> fst ` set r.
                     k \<notin> fst ` set first \<longrightarrow> k \<notin> set (header f))"
      by auto
  }
  {
    assume "fs (csv_filename test_name) = Some e"
    from export_records_not_opened [of fs test_name e out first others, OF this] m
    show "main http fs (Some api_key) typed w =
              (\<lparr> stdout = out, written = None, ending = Raised e \<rparr>, w3)"
      by simp
  }
qed

text \<open>Runs of \<^verbatim>\<open>main\<close> on the demo account, stage by stage.\<close>

lemma strip_frontend: "py_strip ''Frontend Role'' = ''Frontend Role''"
  by (simp add: py_strip_def is_space_def)

lemma strip_archive: "py_strip ''Archive'' = ''Archive''"
  by (simp add: py_strip_def is_space_def)

lemma demo_choose_frontend:
  "choose_test demo_tests demo_listing (Some ''Frontend Role'') =
     Inr (demo_listing @ [prompt], ''Frontend Role'', JInt 8)"
  by (simp add: choose_test_def strip_frontend demo_tests_def name_matches_def)

lemma demo_choose_archive:
  "choose_test demo_tests demo_listing (Some ''Archive'') =
     Inr (demo_listing @ [prompt], ''Archive'', JInt 9)"
  by (simp add: choose_test_def strip_archive demo_tests_def name_matches_def)

lemma demo_choose_backend:
  "choose_test demo_tests demo_listing (Some '' Backend Role '') =
     Inr (demo_listing @ [prompt], ''Backend Role'', JInt 7)"
  by (simp add: choose_test_def strip_backend demo_tests_def name_matches_def)

lemma demo_client_eq: "init ''key'' default_base_url = demo_client"
  by (simp only: demo_client_def)

lemma demo_sessions:
  "fetch_sessions demo_server demo_client out (JInt 7) n = (Inr [sess_A, sess_B], Suc n)"
  "fetch_sessions demo_server demo_client out (JInt 8) n = (Inr [sess_C, sess_A], Suc n)"
  "fetch_sessions demo_server demo_client out (JInt 9) n = (Inr [sess_B], Suc n)"
  by (simp_all add: fetch_sessions_def demo_fetch)

lemma demo_collect:
  "collect demo_server demo_client [sess_A, sess_B] [] n = (Inr [row_A], Suc (Suc (Suc n)))"
  "collect demo_server demo_client [sess_C, sess_A] [] n = (Inr [row_C, row_A], Suc (Suc (Suc (Suc n))))"
  "collect demo_server demo_client [sess_B] [] n = (Inr [], Suc n)"
  by (simp_all add: demo_A demo_B demo_C)

lemma sort_row_C:
  "sort (map fst row_C) = [''email'', ''first_name'', ''last_name'', ''session_end_time'', ''session_notes'']"
  unfolding row_C_def by code_simp

lemma demo_names:
  "flat_directory (csv_filename ''Frontend Role'') = None"
  "flat_directory (csv_filename ''Backend Role'') = None"
  "read_only_directory (csv_filename ''Frontend Role'') = Some OSError"
  by (simp_all add: flat_directory_def read_only_directory_def csv_filename_def safe_name_def)

text \<open>
  Test 8: the record of C comes first, and the key \<^verbatim>\<open>session_score\<close>, which only the record
  of A has, is not in the header. In the directory that cannot be written to, the same run
  ends with the exception of \<^verbatim>\<open>open\<close> and no file.
\<close>

theorem header_from_first_record_witness:
  "''key'' \<noteq> []
   \<and> fetch_tests demo_server (init ''key'' default_base_url) 0 = (Inr (demo_tests, demo_listing), 1)
   \<and> choose_test demo_tests demo_listing (Some ''Frontend Role'') =
        Inr (demo_listing @ [prompt], ''Frontend Role'', JInt 8)
   \<and> fetch_sessions demo_server (init ''key'' default_base_url) (demo_listing @ [prompt]) (JInt 8) 1
        = (Inr [sess_C, sess_A], 2)
   \<and> collect demo_server (init ''key'' default_base_url) [sess_C, sess_A] [] 2 = (Inr (row_C # [row_A]), 6)
   \<and> flat_directory (csv_filename ''Frontend Role'') = None
   \<and> (\<exists>f. written (fst (main demo_server flat_directory (Some ''key'') (Some ''Frontend Role'') 0)) = Some f
          \<and> header f = [''email'', ''first_name'', ''last_name'', ''session_end_time'', ''session_notes'']
          \<and> ''session_score'' \<in> fst ` set row_A
          \<and> ''session_score'' \<notin> set (header f))
   \<and> read_only_directory (csv_filename ''Frontend Role'') = Some OSError
   \<and> main demo_server read_only_directory (Some ''key'') (Some ''Frontend Role'') 0 =
        (\<lparr> stdout = demo_listing @ [prompt], written = None, ending = Raised OSError \<rparr>, 6)"
proof -
  have k: "''key'' \<noteq> []" by simp
  have f: "fetch_tests demo_server (init ''key'' default_base_url) 0 = (Inr (demo_tests, demo_listing), 1)"
    by (simp add: demo_fetch_tests)
  have s: "fetch_sessions demo_server (init ''key'' default_base_url) (demo_listing @ [prompt]) (JInt 8) 1
        = (Inr [sess_C, sess_A], 2)"
    by (simp only: demo_client_eq demo_sessions, simp)
  have c: "collect demo_server (init ''key'' default_base_url) [sess_C, sess_A] [] 2 = (Inr (row_C # [row_A]), 6)"
    by (simp only: demo_client_eq demo_collect, simp)
  note t = header_from_first_record [OF k f demo_choose_frontend s c]
  from t [of flat_directory, THEN conjunct1, THEN mp, OF demo_names(1)] obtain f'
    where w: "written (fst (main demo_server flat_directory (Some ''key'') (Some ''Frontend Role'') 0)) = Some f'"
      and h: "header f' = sort (map fst row_C)"
    by blast
  have "''session_score'' \<in> fst ` set row_A" by (simp add: row_A_def)
  with w h have e: "\<exists>f. written (fst (main demo_server flat_directory (Some ''key'') (Some ''Frontend Role'') 0)) = Some f
          \<and> header f = [''email'', ''first_name'', ''last_name'', ''session_end_time'', ''session_notes'']
          \<and> ''session_score'' \<in> fst ` set row_A
          \<and> ''session_score'' \<notin> set (header f)"
    by (simp add: sort_row_C)
  note r = t [of read_only_directory OSError, THEN conjunct2, THEN mp, OF demo_names(3)]
  from k f demo_choose_frontend s c demo_names(1) e demo_names(3) r show ?thesis by (intro conjI)
qed

section \<open>How the process ends\<close>

lemma export_records_finished:
  "fs (csv_filename test_name) = None \<Longrightarrow>
   writerows (sort (map fst first)) (first # others) = (done, None) \<Longrightarrow>
   ending (export_records fs out test_name (first # others)) = Finished
   \<and> written (export_records fs out test_name (first # others)) \<noteq> None"
  by (simp add: export_records_def Let_def)

text \<open>
  Claim C8. Take any run of \<^verbatim>\<open>main\<close> with a credential. If the \<^verbatim>\<open>tests\<close> of the fetched
  response are empty (or absent, or any falsy value), \<^verbatim>\<open>main\<close> prints that no tests were
  found and exits with code 0, no file written. If the loop over the sessions collects no
  record, \<^verbatim>\<open>main\<close> prints that no completed sessions were found and exits with code 0, no
  file written. A run that opens its file and writes all its rows ends by running off
  \<^verbatim>\<open>main\<close>, with a file written and with the same exit code 0. The fatal exits have code 1: a name that matches
  no test, and a missing or empty credential.
\<close>

theorem empty_results_exit_zero:
  assumes "api_key \<noteq> []"
  shows "(list_tests http (init api_key default_base_url) w = (Inr tests_resp, v1)
            \<and> py_get tests_resp ''tests'' (JList []) = Inr tests \<and> \<not> py_truthy tests
          \<longrightarrow> main http fs (Some api_key) typed w =
               (\<lparr> stdout = [[Lit ''No tests found in your account.'']],
                  written = None, ending = Exit 0 \<rparr>, v1))
       \<and> (fetch_tests http (init api_key default_base_url) w = (Inr (test_list, out0), w1)
            \<and> choose_test test_list out0 typed = Inr (out, test_name, test_id)
            \<and> fetch_sessions http (init api_key default_base_url) out test_id w1 = (Inr sess_list, w2)
            \<and> collect http (init api_key default_base_url) sess_list [] w2 = (Inr [], w3)
          \<longrightarrow> main http fs (Some api_key) typed w =
               (\<lparr> stdout = out @ [[Lit ''No completed sessions found for this test.'']],
                  written = None, ending = Exit 0 \<rparr>, w3))
       \<and> (fetch_tests http (init api_key default_base_url) w = (Inr (test_list, out0), w1)
            \<and> choose_test test_list out0 typed = Inr (out, test_name, test_id)
            \<and> fetch_sessions http (init api_key default_base_url) out test_id w1 = (Inr sess_list, w2)
            \<and> collect http (init api_key default_base_url) sess_list [] w2 = (Inr (first # others), w3)
            \<and> fs (csv_filename test_name) = None
            \<and> writerows (sort (map fst first)) (first # others) = (done, None)
          \<longrightarrow> ending (fst (main http fs (Some api_key) typed w)) = Finished
              \<and> written (fst (main http fs (Some api_key) typed w)) \<noteq> None)
       \<and> exit_code (Exit 0) = exit_code Finished
       \<and> (fetch_tests http (init api_key default_base_url) w = (Inr (test_list, out0), w1)
            \<and> find_matches test_list (py_strip raw) = Inr []
          \<longrightarrow> ending (fst (main http fs (Some api_key) (Some raw) w)) = Exit 1)
       \<and> ending (fst (main http fs None typed w)) = Exit 1
       \<and> ending (fst (main http fs (Some []) typed w)) = Exit 1
       \<and> exit_code (Exit 1) \<noteq> exit_code (Exit 0)"
proof (intro conjI impI)
  assume "list_tests http (init api_key default_base_url) w = (Inr tests_resp, v1)
            \<and> py_get tests_resp ''tests'' (JList []) = Inr tests \<and> \<not> py_truthy tests"
  then show "main http fs (Some api_key) typed w =
               (\<lparr> stdout = [[Lit ''No tests found in your account.'']],
                  written = None, ending = Exit 0 \<rparr>, v1)"
    by (simp add: main_run [OF assms] run_def fetch_tests_def stop_def)
next
  assume "fetch_tests http (init api_key default_base_url) w = (Inr (test_list, out0), w1)
            \<and> choose_test test_list out0 typed = Inr (out, test_name, test_id)
            \<and> fetch_sessions http (init api_key default_base_url) out test_id w1 = (Inr sess_list, w2)
            \<and> collect http (init api_key default_base_url) sess_list [] w2 = (Inr [], w3)"
  then show "main http fs (Some api_key) typed w =
               (\<lparr> stdout = out @ [[Lit ''No completed sessions found for this test.'']],
                  written = None, ending = Exit 0 \<rparr>, w3)"
    using main_exports [OF assms, of http w test_list out0 w1 typed out test_name test_id sess_list w2 "[]" w3]
    by (simp add: stop_def)
next
  assume a: "fetch_tests http (init api_key default_base_url) w = (Inr (test_list, out0), w1)
            \<and> choose_test test_list out0 typed = Inr (out, test_name, test_id)
            \<and> fetch_sessions http (init api_key default_base_url) out test_id w1 = (Inr sess_list, w2)
            \<and> collect http (init api_key default_base_url) sess_list [] w2 = (Inr (first # others), w3)
            \<and> fs (csv_filename test_name) = None
            \<and> writerows (sort (map fst first)) (first # others) = (done, None)"
  then have m: "main http fs (Some api_key) typed w = (export_records fs out test_name (first # others), w3)"
    using main_exports [OF assms, of http w test_list out0 w1 typed out test_name test_id sess_list w2
        "first # others" w3]
    by simp
  from a have o: "fs (csv_filename test_name) = None"
    and r: "writerows (sort (map fst first)) (first # others) = (done, None)" by simp_all
  from export_records_finished [of fs test_name first others "done" out, OF o r]
  show "ending (fst (main http fs (Some api_key) typed w)) = Finished"
    and "written (fst (main http fs (Some api_key) typed w)) \<noteq> None"
    by (simp_all add: m)
next
  show "exit_code (Exit 0) = exit_code Finished" by simp
next
  assume "fetch_tests http (init api_key default_base_url) w = (Inr (test_list, out0), w1)
            \<and> find_matches test_list (py_strip raw) = Inr []"
  then show "ending (fst (main http fs (Some api_key) (Some raw) w)) = Exit 1"
    by (simp add: main_run [OF assms] run_def choose_test_def stop_def)
next
  show "ending (fst (main http fs None typed w)) = Exit 1"
    by (simp add: main_def stop_def)
next
  show "ending (fst (main http fs (Some []) typed w)) = Exit 1"
    by (simp add: main_def stop_def)
next
  show "exit_code (Exit 1) \<noteq> exit_code (Exit 0)" by simp
qed


text \<open>
  The empty account; test 9, whose only session is not completed; test 7, exported; a name
  that no test has.
\<close>

lemma empty_list_tests:
  "list_tests empty_account (init ''key'' default_base_url) n = (Inr (JDict [(''tests'', JList [])]), Suc n)"
  by (simp add: list_tests_def call_json_def send_def empty_account_def ok_def
      raise_for_status_def response_json_def)

lemma sort_row_A:
  "sort (map fst row_A) = [''email'', ''first_name'', ''last_name'', ''session_end_time'',
                           ''session_score'', ''similarity_score'']"
  unfolding row_A_def by code_simp

lemma writerows_row_A:
  "writerows (sort (map fst row_A)) (row_A # []) =
     ([[JStr ''a@x.com'', JStr ''Ann'', JStr ''Lee'', JStr ''2024-02-02'', JInt 3, JFloat ''0.2'']], None)"
  unfolding sort_row_A by (simp add: dict_to_list_def row_A_def)

lemma demo_no_match: "find_matches demo_tests (py_strip ''Nope'') = Inr []"
  by (simp add: strip_nope demo_tests_def name_matches_def)

theorem empty_results_exit_zero_witness:
  "''key'' \<noteq> []
   \<and> main empty_account flat_directory (Some ''key'') (Some ''Backend Role'') 0 =
        (\<lparr> stdout = [[Lit ''No tests found in your account.'']], written = None, ending = Exit 0 \<rparr>, 1)
   \<and> main demo_server flat_directory (Some ''key'') (Some ''Archive'') 0 =
        (\<lparr> stdout = (demo_listing @ [prompt]) @ [[Lit ''No completed sessions found for this test.'']],
           written = None, ending = Exit 0 \<rparr>, 3)
   \<and> ending (fst (main demo_server flat_directory (Some ''key'') (Some '' Backend Role '') 0)) = Finished
   \<and> ending (fst (main demo_server flat_directory (Some ''key'') (Some ''Nope'') 0)) = Exit 1"
proof -
  have k: "''key'' \<noteq> []" by simp
  have e: "list_tests empty_account (init ''key'' default_base_url) 0 = (Inr (JDict [(''tests'', JList [])]), 1)
       \<and> py_get (JDict [(''tests'', JList [])]) ''tests'' (JList []) = Inr (JList [])
       \<and> \<not> py_truthy (JList [])"
    by (simp add: empty_list_tests)
  have f: "fetch_tests demo_server (init ''key'' default_base_url) 0 = (Inr (demo_tests, demo_listing), 1)"
    by (simp add: demo_fetch_tests)
  have b: "fetch_tests demo_server (init ''key'' default_base_url) 0 = (Inr (demo_tests, demo_listing), 1)
       \<and> choose_test demo_tests demo_listing (Some ''Archive'') = Inr (demo_listing @ [prompt], ''Archive'', JInt 9)
       \<and> fetch_sessions demo_server (init ''key'' default_base_url) (demo_listing @ [prompt]) (JInt 9) 1
            = (Inr [sess_B], 2)
       \<and> collect demo_server (init ''key'' default_base_url) [sess_B] [] 2 = (Inr [], 3)"
    using f demo_choose_archive
    by (simp only: demo_client_eq demo_sessions demo_collect, simp)
  have c: "fetch_tests demo_server (init ''key'' default_base_url) 0 = (Inr (demo_tests, demo_listing), 1)
       \<and> choose_test demo_tests demo_listing (Some '' Backend Role '')
            = Inr (demo_listing @ [prompt], ''Backend Role'', JInt 7)
       \<and> fetch_sessions demo_server (init ''key'' default_base_url) (demo_listing @ [prompt]) (JInt 7) 1
            = (Inr [sess_A, sess_B], 2)
       \<and> collect demo_server (init ''key'' default_base_url) [sess_A, sess_B] [] 2 = (Inr (row_A # []), 5)
       \<and> flat_directory (csv_filename ''Backend Role'') = None
       \<and> writerows (sort (map fst row_A)) (row_A # []) =
            ([[JStr ''a@x.com'', JStr ''Ann'', JStr ''Lee'', JStr ''2024-02-02'', JInt 3, JFloat ''0.2'']], None)"
    using f demo_choose_backend writerows_row_A demo_names(2)
    by (simp only: demo_client_eq demo_sessions demo_collect, simp)
  have n: "fetch_tests demo_server (init ''key'' default_base_url) 0 = (Inr (demo_tests, demo_listing), 1)
       \<and> find_matches demo_tests (py_strip ''Nope'') = Inr []"
    using f demo_no_match by simp
  note t1 = empty_results_exit_zero [OF k, where fs = flat_directory, THEN conjunct1, THEN mp,
      OF e, of "Some ''Backend Role''"]
  note t2 = empty_results_exit_zero [OF k, where fs = flat_directory, THEN conjunct2,
      THEN conjunct1, THEN mp, OF b]
  note t3 = empty_results_exit_zero [OF k, where fs = flat_directory, THEN conjunct2,
      THEN conjunct2, THEN conjunct1, THEN mp, OF c, THEN conjunct1]
  note t4 = empty_results_exit_zero [OF k, where fs = flat_directory, THEN conjunct2,
      THEN conjunct2, THEN conjunct2, THEN conjunct2, THEN conjunct1, THEN mp, OF n]
  from k t1 t2 t3 t4 show ?thesis by (intro conjI)
qed

text \<open>
  Claim C5 as written fails where the typed line has white space around the name. No test
  of the demo account has the title or the name \<^verbatim>\<open>" Backend Role "\<close>, with its two spaces;
  typed like that, the name still selects test 7, and the file is written.
\<close>

lemma demo_export_backend:
  "main demo_server flat_directory (Some ''key'') (Some '' Backend Role '') 0 =
     (export_records flat_directory (demo_listing @ [prompt]) ''Backend Role'' [row_A], 5)"
proof -
  have k: "''key'' \<noteq> []" by simp
  have s: "fetch_sessions demo_server (init ''key'' default_base_url) (demo_listing @ [prompt]) (JInt 7) 1
            = (Inr [sess_A, sess_B], 2)"
    by (simp only: demo_client_eq demo_sessions, simp)
  have c: "collect demo_server (init ''key'' default_base_url) [sess_A, sess_B] [] 2 = (Inr [row_A], 5)"
    by (simp only: demo_client_eq demo_collect, simp)
  have f: "fetch_tests demo_server (init ''key'' default_base_url) 0 = (Inr (demo_tests, demo_listing), 1)"
    by (simp add: demo_fetch_tests)
  from main_exports [OF k f demo_choose_backend s c] show ?thesis by simp
qed

theorem unstripped_name_counterexample:
  "find_matches demo_tests '' Backend Role '' = Inr []
   \<and> written (fst (main demo_server flat_directory (Some ''key'') (Some '' Backend Role '') 0)) =
       Some \<lparr> file_name = ''Backend_Role_completed_sessions.csv'',
              header = [''email'', ''first_name'', ''last_name'', ''session_end_time'',
                        ''session_score'', ''similarity_score''],
              file_rows = [[JStr ''a@x.com'', JStr ''Ann'', JStr ''Lee'', JStr ''2024-02-02'',
                            JInt 3, JFloat ''0.2'']] \<rparr>
   \<and> ending (fst (main demo_server flat_directory (Some ''key'') (Some '' Backend Role '') 0)) = Finished"
proof -
  have "find_matches demo_tests '' Backend Role '' = Inr []"
    by (simp add: demo_tests_def name_matches_def)
  moreover have "export_records flat_directory (demo_listing @ [prompt]) ''Backend Role'' [row_A] =
      \<lparr> stdout = (demo_listing @ [prompt])
                   @ [[Lit ''Exported '', Fmt (JInt 1),
                       Lit ('' records to '' @ [CHR 0x27] @ ''Backend_Role_completed_sessions.csv''
                             @ [CHR 0x27])]],
        written = Some \<lparr> file_name = ''Backend_Role_completed_sessions.csv'',
              header = [''email'', ''first_name'', ''last_name'', ''session_end_time'',
                        ''session_score'', ''similarity_score''],
              file_rows = [[JStr ''a@x.com'', JStr ''Ann'', JStr ''Lee'', JStr ''2024-02-02'',
                            JInt 3, JFloat ''0.2'']] \<rparr>,
        ending = Finished \<rparr>"
    using writerows_row_A demo_names(2)
    by (simp add: export_records_def sort_row_A csv_filename_def safe_name_def)
  ultimately show ?thesis by (simp add: demo_export_backend)
qed

end
